theory Spec2Isabelle
  imports Complex_Main "HOL-Library.Sublist" "HOL-Library.AList"
begin

section \<open>Strings\<close>

text \<open>
  A JavaScript string is modelled as a \<^typ>\<open>string\<close>, one \<^typ>\<open>char\<close> per code unit; a
  \<^typ>\<open>char\<close> has eight bits, so the strings of the model are those of code units below
  256. \<open>toLowerCase\<close> is modelled on the ASCII letters: \<open>A\<close> to \<open>Z\<close> become \<open>a\<close> to
  \<open>z\<close>, every other code unit is kept. JavaScript lowers letters beyond ASCII as well,
  to code units beyond ASCII; the keywords of the classifier are ASCII, so the tests
  for them come out the same.
\<close>

definition lowerChar :: "char \<Rightarrow> char" where
  "lowerChar c =
     (let n = (of_char c :: nat)
      in if 65 \<le> n \<and> n \<le> 90 then char_of (n + 32) else c)"

definition toLowerCase :: "string \<Rightarrow> string" where
  "toLowerCase s = map lowerChar s"

text \<open>\<open>s.includes(k)\<close>: \<open>k\<close> occurs in \<open>s\<close> as a contiguous run of code units.\<close>

definition str_includes :: "string \<Rightarrow> string \<Rightarrow> bool" where
  "str_includes s k = sublist k s"

text \<open>
  The regular expression \<open>/deed\s+of\s+sale/i\<close>. The class \<open>\s\<close> holds, below 256, the
  tab, line feed, vertical tab, form feed, carriage return, space and no-break space. A
  run \<open>\s+\<close> is followed by a letter, so a match consumes the whole run of white space.
  The flag \<open>i\<close> compares letters without regard to case: the subject is lowered before
  it is compared.
\<close>

definition isSpace :: "char \<Rightarrow> bool" where
  "isSpace c = ((of_char c :: nat) \<in> {9, 10, 11, 12, 13, 32, 160})"

definition spaces1 :: "string \<Rightarrow> string option" where
  "spaces1 s =
     (case s of
        [] \<Rightarrow> None
      | c # cs \<Rightarrow> if isSpace c then Some (dropWhile isSpace cs) else None)"

definition literal :: "string \<Rightarrow> string \<Rightarrow> string option" where
  "literal k s = (if prefix k s then Some (drop (length k) s) else None)"

definition deedOfSaleAt :: "string \<Rightarrow> bool" where
  "deedOfSaleAt s =
     (case literal ''deed'' s of
        None \<Rightarrow> False
      | Some s1 \<Rightarrow>
         (case spaces1 s1 of
            None \<Rightarrow> False
          | Some s2 \<Rightarrow>
             (case literal ''of'' s2 of
                None \<Rightarrow> False
              | Some s3 \<Rightarrow>
                 (case spaces1 s3 of
                    None \<Rightarrow> False
                  | Some s4 \<Rightarrow> prefix ''sale'' s4))))"

fun searchFrom :: "string \<Rightarrow> bool" where
  "searchFrom [] = deedOfSaleAt []"
| "searchFrom (c # cs) = (deedOfSaleAt (c # cs) \<or> searchFrom cs)"

definition matchDeedOfSale :: "string \<Rightarrow> bool" where
  "matchDeedOfSale s = searchFrom (toLowerCase s)"

section \<open>The classifier: simulateLegalAnalysis\<close>

text \<open>
  The object that \<open>simulateLegalAnalysis\<close> returns and \<open>analyzeDocument\<close> then extends.
  \<open>complianceDetails\<close> is absent on return and is attached later; its properties are
  those of either shape, each present or absent as on the JavaScript object.
\<close>

record analysisDetails =
  languageValidity :: bool
  clauseCompletenessScore :: rat
  legalTerminologyAccuracy :: rat

record complianceDetails =
  validityPeriod :: "string option"
  registrationRequired :: "bool option"
  stampDutyPaid :: "bool option"
  properWitnessAttestation :: "bool option"
  notarizationStatus :: "string option"
  governmentDepartmentApproval :: "string option"
  standardsCompliance :: "string list option"
  missingElements :: "string list option"
  nonComplianceRisks :: "string list option"
  reraCompliance :: "string option"
  boundaryVerification :: "string option"
  encumbranceStatus :: "string option"

record analysisResults =
  isValid :: bool
  complianceStatus :: string
  issues :: "string list"
  warnings :: "string list"
  recommendations :: "string list"
  documentType :: string
  legalFrameworks :: "string list"
  analysisDetails :: analysisDetails
  complianceDetails :: "complianceDetails option"

text \<open>The list \<open>documentTypes\<close> that the function declares (and never reads).\<close>

definition documentTypes :: "string list" where
  "documentTypes =
     [''Agreement'', ''Deed'', ''Invoice'', ''Bond Paper'', ''Property Document'',
      ''Sale Deed'', ''Unknown'']"

text \<open>\<open>documentType || 'Unknown'\<close>: \<open>null\<close> and the empty string are both falsy.\<close>

definition declaredOrUnknown :: "string option \<Rightarrow> string" where
  "declaredOrUnknown declaredType =
     (case declaredType of
        None \<Rightarrow> ''Unknown''
      | Some t \<Rightarrow> if t = [] then ''Unknown'' else t)"

text \<open>
  The conditions of the three \<open>if\<close> statements, on the lowered text and the lowered
  declared type. The tests of the text are grouped under a name of their own; the
  disjunctions keep the order of the source.
\<close>

definition textHasBond :: "string \<Rightarrow> bool" where
  "textHasBond textLower =
     (str_includes textLower ''bond'' \<or> str_includes textLower ''stamp paper'')"

definition bondRule :: "string \<Rightarrow> string \<Rightarrow> bool" where
  "bondRule textLower docTypeLower =
     (textHasBond textLower \<or> str_includes docTypeLower ''bond'')"

definition textHasSaleDeed :: "string \<Rightarrow> bool" where
  "textHasSaleDeed textLower =
     (str_includes textLower ''sale deed'' \<or> str_includes textLower ''sale-deed'' \<or>
      str_includes textLower ''sale agreement'' \<or> matchDeedOfSale textLower)"

definition saleDeedRule :: "string \<Rightarrow> string \<Rightarrow> bool" where
  "saleDeedRule textLower docTypeLower =
     (textHasSaleDeed textLower \<or>
      str_includes docTypeLower ''sale'' \<or> str_includes docTypeLower ''deed'')"

definition textHasProperty :: "string \<Rightarrow> bool" where
  "textHasProperty textLower =
     (str_includes textLower ''property'' \<or> str_includes textLower ''real estate'' \<or>
      str_includes textLower ''land'' \<or> str_includes textLower ''apartment'' \<or>
      str_includes textLower ''house'' \<or> str_includes textLower ''flat'' \<or>
      str_includes textLower ''conveyance'' \<or> str_includes textLower ''title'' \<or>
      str_includes textLower ''transfer'')"

definition propertyRule :: "string \<Rightarrow> string \<Rightarrow> bool" where
  "propertyRule textLower docTypeLower =
     (textHasProperty textLower \<or> str_includes docTypeLower ''property'')"

text \<open>
  The three assignments in their order; \<open>docTypeLower\<close> is computed once, from the
  initial value of \<open>actualType\<close>, before any rule runs.
\<close>

definition resolveType :: "string \<Rightarrow> string option \<Rightarrow> string" where
  "resolveType text declaredType =
     (let actualType0 = declaredOrUnknown declaredType;
          textLower = toLowerCase text;
          docTypeLower = toLowerCase actualType0;
          actualType1 = (if bondRule textLower docTypeLower then ''Bond Paper'' else actualType0);
          actualType2 = (if saleDeedRule textLower docTypeLower then ''Sale Deed'' else actualType1);
          actualType3 =
            (if propertyRule textLower docTypeLower then ''Property Document'' else actualType2)
      in actualType3)"

definition issuesFor :: "string \<Rightarrow> string list" where
  "issuesFor actualType =
     (if actualType = ''Agreement'' then []
      else if actualType = ''Deed'' then []
      else if actualType = ''Invoice'' then []
      else if actualType = ''Bond Paper'' then []
      else if actualType = ''Sale Deed'' then []
      else if actualType = ''Property Document'' then []
      else [''Document type cannot be determined'', ''Missing standard legal clauses''])"

definition warningsFor :: "string \<Rightarrow> string list" where
  "warningsFor actualType =
     (if actualType = ''Agreement'' then
        [''Recommended: Add explicit clause for maintenance responsibilities'']
      else if actualType = ''Deed'' then
        [''Consider adding more specific property demarcation details'']
      else if actualType = ''Invoice'' then
        [''GST details should be more prominently displayed'']
      else if actualType = ''Bond Paper'' then
        [''Verify stamp paper value matches transaction amount requirements'']
      else if actualType = ''Sale Deed'' then
        [''Ensure property boundaries match those in land records'']
      else if actualType = ''Property Document'' then
        [''Property boundaries should be clearly defined with survey numbers'']
      else
        [''Document may not be legally valid'',
         ''Format does not match any standard template''])"

definition recommendationsFor :: "string \<Rightarrow> string list" where
  "recommendationsFor actualType =
     (if actualType = ''Agreement'' then
        [''Specific clause regarding security deposit return timeline'',
         ''Clear definition of '' @ [CHR 0x27] @ ''normal wear and tear'' @ [CHR 0x27],
         ''Updated reference to recent Supreme Court judgment on rental caps'']
      else if actualType = ''Deed'' then
        [''Include latest amendments to the Registration Act, 1908'',
         ''Add clause related to digital signature validity'',
         ''Reference the most recent stamp duty regulations'']
      else if actualType = ''Invoice'' then
        [''Include HSN/SAC codes for all items'',
         ''Add payment terms with reference to Late Payment Act'',
         ''Include cancellation and refund policy'']
      else if actualType = ''Bond Paper'' then
        [''Include notarization details with registration number'',
         ''Add proper witness attestation with ID details'',
         ''Verify with the Indian Stamp Act for the appropriate stamp duty value'',
         ''Include e-stamping certificate details if using e-stamped paper'']
      else if actualType = ''Sale Deed'' then
        [''Verify that stamp duty paid corresponds to current market value'',
         ''Include complete chain of title documents as annexures'',
         ''Ensure property tax receipts are attached and up to date'',
         ''Include all required witness signatures with their verified ID details'',
         ''Register with Sub-Registrar Office within the statutory time limit'']
      else if actualType = ''Property Document'' then
        [''Include verification of property title from local authorities'',
         ''Ensure all co-owners have signed with proper ID verification'',
         ''Reference latest RERA regulations if applicable'',
         ''Include clear encumbrance certificate details'',
         ''Verify property tax payment status and include documentation'']
      else
        [''Use a standard legal template'',
         ''Consult with a legal professional'',
         ''Add proper identification and authentication elements''])"

definition baseFrameworks :: "string list" where
  "baseFrameworks =
     [''Registration Act, 1908'',
      ''Indian Stamp Act'',
      ''Transfer of Property Act, 1882'',
      ''Indian Contract Act, 1872'']"

definition simulateLegalAnalysis :: "string \<Rightarrow> string option \<Rightarrow> analysisResults" where
  "simulateLegalAnalysis text declaredType =
     (let actualType = resolveType text declaredType;
          valid = (actualType \<noteq> ''Unknown'')
      in \<lparr> isValid = valid,
           complianceStatus = (if valid then ''compliant'' else ''non-compliant''),
           issues = issuesFor actualType,
           warnings = warningsFor actualType,
           recommendations = recommendationsFor actualType,
           documentType = actualType,
           legalFrameworks = baseFrameworks,
           analysisDetails =
             \<lparr> languageValidity = True,
               clauseCompletenessScore = (if valid then 85 / 100 else 45 / 100),
               legalTerminologyAccuracy = (if valid then 9 / 10 else 6 / 10) \<rparr>,
           complianceDetails = None \<rparr>)"

section \<open>The schema: documents and analyses\<close>

text \<open>
  The rows of the tables \<open>documents\<close> and \<open>analyses\<close>. A nullable column is an
  \<^typ>\<open>'a option\<close>. Field names that occur in two records carry a prefix: \<open>d_\<close> for a
  document, \<open>a_\<close> for an analysis. \<open>analysisData\<close> holds the argument of
  \<open>JSON.stringify\<close>, the object itself in place of its text.
\<close>

record document =
  d_id :: int
  d_userId :: int
  d_fileName :: string
  d_fileType :: string
  d_fileSize :: int
  d_documentType :: "string option"
  d_status :: string
  d_uploadedAt :: int
  d_content :: "string option"

record insertDocument =
  i_userId :: int
  i_fileName :: string
  i_fileType :: string
  i_fileSize :: int
  i_documentType :: "string option"

datatype payload =
  EmptyObject
  | ResultsObject analysisResults
  | ErrorObject string

record insertAnalysis =
  documentId :: int
  a_isValid :: "bool option"
  a_complianceStatus :: "string option"
  issuesCount :: "int option"
  a_warnings :: "string list option"
  a_recommendations :: "string list option"
  analysisData :: "payload option"

record analysis = insertAnalysis +
  a_id :: int
  createdAt :: int

section \<open>The storage: MemStorage\<close>

text \<open>
  The fields of \<open>MemStorage\<close> that hold documents and analyses. A JavaScript \<open>Map\<close>
  keeps its entries in insertion order, and \<open>set\<close> on a key that is present replaces
  the value in place: an association list with \<^const>\<open>AList.update\<close>. \<open>clock\<close>
  lists the values that the successive calls of \<open>new Date()\<close> return, whatever they
  are, and \<open>dateReads\<close> counts the calls made. Identifiers are integers; the counters of
  the source are doubles, exact below \<open>2^53\<close>.
\<close>

record memStorage =
  documents :: "(int \<times> document) list"
  analyses :: "(int \<times> analysis) list"
  currentDocumentId :: int
  currentAnalysisId :: int
  clock :: "nat \<Rightarrow> int"
  dateReads :: nat

definition MemStorage_new :: "(nat \<Rightarrow> int) \<Rightarrow> memStorage" where
  "MemStorage_new clk =
     \<lparr> documents = [], analyses = [], currentDocumentId = 1, currentAnalysisId = 1,
       clock = clk, dateReads = 0 \<rparr>"

definition createDocument :: "insertDocument \<Rightarrow> memStorage \<Rightarrow> document \<times> memStorage" where
  "createDocument ins s =
     (let ident = currentDocumentId s;
          now = clock s (dateReads s);
          doc = \<lparr> d_id = ident, d_userId = i_userId ins, d_fileName = i_fileName ins,
                  d_fileType = i_fileType ins, d_fileSize = i_fileSize ins,
                  d_documentType = i_documentType ins, d_status = ''pending'',
                  d_uploadedAt = now, d_content = Some [] \<rparr>
      in (doc, s\<lparr> currentDocumentId := ident + 1, dateReads := dateReads s + 1,
                   documents := AList.update ident doc (documents s) \<rparr>))"

definition getDocument :: "int \<Rightarrow> memStorage \<Rightarrow> document option" where
  "getDocument ident s = map_of (documents s) ident"

definition updateDocumentStatus ::
  "int \<Rightarrow> string \<Rightarrow> memStorage \<Rightarrow> document option \<times> memStorage" where
  "updateDocumentStatus ident status s =
     (case getDocument ident s of
        Some doc \<Rightarrow>
          (let updatedDocument = doc\<lparr> d_status := status \<rparr>
           in (Some updatedDocument,
               s\<lparr> documents := AList.update ident updatedDocument (documents s) \<rparr>))
      | None \<Rightarrow> (None, s))"

text \<open>The object \<open>{ ...insertAnalysis, id, createdAt: now }\<close>.\<close>

definition analysisRecord :: "insertAnalysis \<Rightarrow> int \<Rightarrow> int \<Rightarrow> analysis" where
  "analysisRecord ins ident now =
     \<lparr> documentId = documentId ins, a_isValid = a_isValid ins,
       a_complianceStatus = a_complianceStatus ins, issuesCount = issuesCount ins,
       a_warnings = a_warnings ins, a_recommendations = a_recommendations ins,
       analysisData = analysisData ins, a_id = ident, createdAt = now \<rparr>"

definition createAnalysis :: "insertAnalysis \<Rightarrow> memStorage \<Rightarrow> analysis \<times> memStorage" where
  "createAnalysis ins s =
     (let ident = currentAnalysisId s;
          now = clock s (dateReads s);
          a = analysisRecord ins ident now
      in (a, s\<lparr> currentAnalysisId := ident + 1, dateReads := dateReads s + 1,
                 analyses := AList.update ident a (analyses s) \<rparr>))"

definition getAnalysis :: "int \<Rightarrow> memStorage \<Rightarrow> analysis option" where
  "getAnalysis ident s = map_of (analyses s) ident"

definition getAnalysisByDocumentId :: "int \<Rightarrow> memStorage \<Rightarrow> analysis option" where
  "getAnalysisByDocumentId did s =
     find (\<lambda>a. documentId a = did) (map snd (analyses s))"

text \<open>
  Every key of \<open>analyses\<close> lies below the counter: it holds in a new store and every
  method keeps it.
\<close>

definition idsBelowCounter :: "memStorage \<Rightarrow> bool" where
  "idsBelowCounter s = list_all (\<lambda>p. fst p < currentAnalysisId s) (analyses s)"

section \<open>The storage interface\<close>

text \<open>
  \<open>analyzeDocument\<close> reaches the storage through two methods of \<open>IStorage\<close>. A call
  is a promise: run on a store, it resolves (\<open>Inr\<close>) or rejects (\<open>Inl\<close>) and leaves a
  store. The calls of one run follow each other with no other task between them.
\<close>

datatype jsError = TypeError string | StorageError string

record 's IStorage =
  createAnalysis_op :: "insertAnalysis \<Rightarrow> 's \<Rightarrow> (jsError + analysis) \<times> 's"
  updateDocumentStatus_op :: "int \<Rightarrow> string \<Rightarrow> 's \<Rightarrow> (jsError + document option) \<times> 's"

text \<open>The exported \<open>storage\<close>: the methods of \<open>MemStorage\<close>, which never reject.\<close>

definition storage :: "memStorage IStorage" where
  "storage =
     \<lparr> createAnalysis_op = (\<lambda>ins s. case createAnalysis ins s of (a, s') \<Rightarrow> (Inr a, s')),
       updateDocumentStatus_op =
         (\<lambda>ident status s.
            case updateDocumentStatus ident status s of (d, s') \<Rightarrow> (Inr d, s')) \<rparr>"

text \<open>
  \<open>MemStorage\<close> with calls that can reject: \<open>createAnalysis\<close> rejects the calls that
  \<open>rejectsCreate\<close> selects, \<open>updateDocumentStatus\<close> those that \<open>rejectsUpdate\<close>
  selects, and a rejected call leaves the store as it was. It stands for a storage that
  fails, which \<open>storage\<close> itself never does.
\<close>

definition faultyStorage ::
  "(insertAnalysis \<Rightarrow> memStorage \<Rightarrow> bool) \<Rightarrow> (int \<Rightarrow> string \<Rightarrow> memStorage \<Rightarrow> bool) \<Rightarrow>
   memStorage IStorage" where
  "faultyStorage rejectsCreate rejectsUpdate =
     \<lparr> createAnalysis_op =
         (\<lambda>ins s.
            if rejectsCreate ins s then (Inl (StorageError ''insert failed''), s)
            else case createAnalysis ins s of (a, s') \<Rightarrow> (Inr a, s')),
       updateDocumentStatus_op =
         (\<lambda>ident status s.
            if rejectsUpdate ident status s then (Inl (StorageError ''update failed''), s)
            else case updateDocumentStatus ident status s of (d, s') \<Rightarrow> (Inr d, s')) \<rparr>"

text \<open>
  A storage that is down, one that takes no status at all, and one that takes no
  status but \<open>error\<close>.
\<close>

definition unavailableStorage :: "memStorage IStorage" where
  "unavailableStorage = faultyStorage (\<lambda>ins s. True) (\<lambda>ident status s. True)"

definition statusRejectingStorage :: "memStorage IStorage" where
  "statusRejectingStorage = faultyStorage (\<lambda>ins s. False) (\<lambda>ident status s. True)"

definition flakyStorage :: "memStorage IStorage" where
  "flakyStorage = faultyStorage (\<lambda>ins s. False) (\<lambda>ident status s. status \<noteq> ''error'')"

section \<open>The orchestrator: analyzeDocument\<close>

definition newline :: char where
  "newline = CHR 0x0A"

text \<open>
  The template literal: \<open>${document.documentType}\<close> prints \<open>null\<close> as the word
  \<open>null\<close>; \<open>document.documentType?.toLowerCase() || 'document'\<close> falls back when the
  type is \<open>null\<close> or lowers to the empty string.
\<close>

definition extractTextFromDocument :: "document \<Rightarrow> string" where
  "extractTextFromDocument doc =
     ''Sample text for document '' @ d_fileName doc @ '' of type '' @
     (case d_documentType doc of None \<Rightarrow> ''null'' | Some t \<Rightarrow> t) @ ''. '' @ [newline] @
     ''This document appears to be a legal '' @
     (case d_documentType doc of
        None \<Rightarrow> ''document''
      | Some t \<Rightarrow> if toLowerCase t = [] then ''document'' else toLowerCase t) @
     '' '' @ [newline] @
     ''under Indian law with some standard clauses and provisions.''"

definition validDetails :: complianceDetails where
  "validDetails =
     \<lparr> validityPeriod = Some ''5 years from date of execution'',
       registrationRequired = Some True,
       stampDutyPaid = Some True,
       properWitnessAttestation = Some True,
       notarizationStatus = Some ''Complete'',
       governmentDepartmentApproval = Some ''Verified'',
       standardsCompliance =
         Some [''Ministry of Law and Justice - Document Standards 2021'',
               ''Digital India Initiative - E-Document Guidelines'',
               ''Indian Registration Act Requirements''],
       missingElements = None,
       nonComplianceRisks = None,
       reraCompliance = None,
       boundaryVerification = None,
       encumbranceStatus = None \<rparr>"

definition invalidDetails :: complianceDetails where
  "invalidDetails =
     \<lparr> validityPeriod = None,
       registrationRequired = None,
       stampDutyPaid = None,
       properWitnessAttestation = None,
       notarizationStatus = None,
       governmentDepartmentApproval = None,
       standardsCompliance = None,
       missingElements =
         Some [''Proper digital signatures'',
               ''Mandatory disclosure clauses'',
               ''Required government stamps'',
               ''Authentication watermarks''],
       nonComplianceRisks =
         Some [''Document may not be legally enforceable'',
               ''Could be rejected by government authorities'',
               ''May face challenges in court proceedings'',
               ''Potential penalties for non-compliance''],
       reraCompliance = None,
       boundaryVerification = None,
       encumbranceStatus = None \<rparr>"

text \<open>Lines 70 to 99: the details are chosen by \<open>isValid\<close>.\<close>

definition attachComplianceDetails :: "analysisResults \<Rightarrow> analysisResults" where
  "attachComplianceDetails r =
     r\<lparr> complianceDetails := Some (if isValid r then validDetails else invalidDetails) \<rparr>"

text \<open>
  Lines 101 to 115. The two frameworks are pushed before the test of \<open>isValid\<close>. A
  write to a property of \<open>undefined\<close> and a \<open>push\<close> on \<open>undefined\<close> throw a TypeError.
\<close>

definition propertyFrameworks :: "string list" where
  "propertyFrameworks =
     [''Real Estate (Regulation and Development) Act, 2016'',
      ''Indian Registration Act, 1908 (property specific sections)'']"

definition propertyTreatment :: "analysisResults \<Rightarrow> jsError + analysisResults" where
  "propertyTreatment r =
     (if documentType r = ''Property Document'' then
        (let r1 = r\<lparr> legalFrameworks := legalFrameworks r @ propertyFrameworks \<rparr>
         in case complianceDetails r1 of
              None \<Rightarrow> Inl (TypeError ''complianceDetails is undefined'')
            | Some cd \<Rightarrow>
                if isValid r1 then
                  Inr (r1\<lparr> complianceDetails :=
                             Some (cd\<lparr> reraCompliance := Some ''Verified'',
                                        boundaryVerification := Some ''Completed'',
                                        encumbranceStatus := Some ''Clear'' \<rparr>) \<rparr>)
                else
                  (case missingElements cd of
                     None \<Rightarrow> Inl (TypeError ''missingElements is undefined'')
                   | Some me \<Rightarrow>
                       (case nonComplianceRisks cd of
                          None \<Rightarrow> Inl (TypeError ''nonComplianceRisks is undefined'')
                        | Some risks \<Rightarrow>
                            Inr (r1\<lparr> complianceDetails :=
                                       Some (cd\<lparr> missingElements :=
                                                    Some (me @ [''RERA registration details'']),
                                                  nonComplianceRisks :=
                                                    Some (risks @ [''Potential boundary disputes'']) \<rparr>) \<rparr>))))
      else Inr r)"

text \<open>The object \<open>analysisResults\<close> as it stands at line 116.\<close>

definition enhancedResults :: "document \<Rightarrow> jsError + analysisResults" where
  "enhancedResults doc =
     (let documentContent = extractTextFromDocument doc;
          r = simulateLegalAnalysis documentContent (d_documentType doc)
      in propertyTreatment (attachComplianceDetails r))"

definition initialAnalysis :: "document \<Rightarrow> insertAnalysis" where
  "initialAnalysis doc =
     \<lparr> documentId = d_id doc, a_isValid = None, a_complianceStatus = Some ''processing'',
       issuesCount = Some 0, a_warnings = Some [], a_recommendations = Some [],
       analysisData = Some EmptyObject \<rparr>"

definition updatedAnalysis :: "document \<Rightarrow> analysisResults \<Rightarrow> insertAnalysis" where
  "updatedAnalysis doc r =
     \<lparr> documentId = d_id doc, a_isValid = Some (isValid r),
       a_complianceStatus = Some (complianceStatus r),
       issuesCount = Some (int (length (issues r))),
       a_warnings = Some (warnings r), a_recommendations = Some (recommendations r),
       analysisData = Some (ResultsObject r) \<rparr>"

definition errorAnalysis :: "document \<Rightarrow> insertAnalysis" where
  "errorAnalysis doc =
     \<lparr> documentId = d_id doc, a_isValid = Some False, a_complianceStatus = Some ''error'',
       issuesCount = Some 1, a_warnings = Some [''Analysis failed due to an error''],
       a_recommendations = Some [''Please try again or contact support''],
       analysisData = Some (ErrorObject ''Analysis failed'') \<rparr>"

text \<open>The body of the \<open>try\<close>: a rejection or a throw anywhere in it ends it.\<close>

definition tryBlock :: "'s IStorage \<Rightarrow> document \<Rightarrow> 's \<Rightarrow> (jsError + analysis) \<times> 's" where
  "tryBlock st doc s =
     (case enhancedResults doc of
        Inl e \<Rightarrow> (Inl e, s)
      | Inr r \<Rightarrow>
          (case updateDocumentStatus_op st (d_id doc)
                  (if isValid r then ''valid'' else ''invalid'') s of
             (Inl e, s1) \<Rightarrow> (Inl e, s1)
           | (Inr d, s1) \<Rightarrow> createAnalysis_op st (updatedAnalysis doc r) s1))"

text \<open>The body of the \<open>catch\<close>; it has no handler of its own.\<close>

definition catchBlock :: "'s IStorage \<Rightarrow> document \<Rightarrow> 's \<Rightarrow> (jsError + analysis) \<times> 's" where
  "catchBlock st doc s =
     (case updateDocumentStatus_op st (d_id doc) ''error'' s of
        (Inl e, s1) \<Rightarrow> (Inl e, s1)
      | (Inr d, s1) \<Rightarrow> createAnalysis_op st (errorAnalysis doc) s1)"

text \<open>
  \<open>analyzeDocument\<close>: the first \<open>createAnalysis\<close> stands before the \<open>try\<close>, so its
  rejection leaves the function at once.
\<close>

definition analyzeDocument :: "'s IStorage \<Rightarrow> document \<Rightarrow> 's \<Rightarrow> (jsError + analysis) \<times> 's" where
  "analyzeDocument st doc s =
     (case createAnalysis_op st (initialAnalysis doc) s of
        (Inl e, s0) \<Rightarrow> (Inl e, s0)
      | (Inr placeholder, s0) \<Rightarrow>
          (case tryBlock st doc s0 of
             (Inr result, s1) \<Rightarrow> (Inr result, s1)
           | (Inl e, s1) \<Rightarrow> catchBlock st doc s1))"

text \<open>The shape of the record that \<open>initialAnalysis\<close> describes.\<close>

definition isPlaceholder :: "analysis \<Rightarrow> bool" where
  "isPlaceholder a =
     (a_isValid a = None \<and> a_complianceStatus a = Some ''processing'' \<and>
      issuesCount a = Some 0 \<and> a_warnings a = Some [] \<and> a_recommendations a = Some [] \<and>
      analysisData a = Some EmptyObject)"

section \<open>Histories of a store\<close>

text \<open>
  The calls that reach the storage in this repository: the upload route creates a
  document and has it analysed, and \<open>analyzeDocument\<close> is the only caller of
  \<open>createAnalysis\<close> and of \<open>updateDocumentStatus\<close>. A history is a list of such calls,
  run in order on the exported \<open>storage\<close>.
\<close>

datatype call =
  CreateDocument insertDocument
  | UpdateDocumentStatus int string
  | AnalyzeDocument document

fun perform :: "call \<Rightarrow> memStorage \<Rightarrow> memStorage" where
  "perform (CreateDocument ins) s = snd (createDocument ins s)"
| "perform (UpdateDocumentStatus ident status) s = snd (updateDocumentStatus ident status s)"
| "perform (AnalyzeDocument doc) s = snd (analyzeDocument storage doc s)"

fun performAll :: "call list \<Rightarrow> memStorage \<Rightarrow> memStorage" where
  "performAll [] s = s"
| "performAll (c # cs) s = performAll cs (perform c s)"

section \<open>Sample inputs\<close>

definition sampleClock :: "nat \<Rightarrow> int" where
  "sampleClock k = int k"

definition leaseDocument :: document where
  "leaseDocument =
     \<lparr> d_id = 1, d_userId = 7, d_fileName = ''lease.pdf'', d_fileType = ''application/pdf'',
       d_fileSize = 2048, d_documentType = None, d_status = ''pending'', d_uploadedAt = 0,
       d_content = Some [] \<rparr>"


definition flatDocument :: document where
  "flatDocument =
     \<lparr> d_id = 2, d_userId = 7, d_fileName = ''my flat.pdf'',
       d_fileType = ''application/pdf'', d_fileSize = 4096,
       d_documentType = Some ''Unknown'', d_status = ''pending'', d_uploadedAt = 0,
       d_content = Some [] \<rparr>"

definition leaseUpload :: insertDocument where
  "leaseUpload =
     \<lparr> i_userId = 7, i_fileName = ''lease.pdf'', i_fileType = ''application/pdf'',
       i_fileSize = 2048, i_documentType = None \<rparr>"

text \<open>
  A results object that the classifier never returns: the label \<open>Property Document\<close>
  with \<open>isValid\<close> false.
\<close>

definition invalidPropertyResults :: analysisResults where
  "invalidPropertyResults =
     (simulateLegalAnalysis ''x'' None)\<lparr> documentType := ''Property Document'' \<rparr>"

section \<open>Properties of the classifier\<close>

lemma documentType_simulate [simp]:
  "documentType (simulateLegalAnalysis tx dt) = resolveType tx dt"
  by (simp add: simulateLegalAnalysis_def Let_def)

lemma isValid_simulate [simp]:
  "isValid (simulateLegalAnalysis tx dt) = (resolveType tx dt \<noteq> ''Unknown'')"
  by (simp add: simulateLegalAnalysis_def Let_def)

lemma resolveType_property:
  "propertyRule (toLowerCase tx) (toLowerCase (declaredOrUnknown dt)) \<Longrightarrow>
   resolveType tx dt = ''Property Document''"
  by (simp add: resolveType_def Let_def)

lemma resolveType_sale:
  "\<not> propertyRule (toLowerCase tx) (toLowerCase (declaredOrUnknown dt)) \<Longrightarrow>
   saleDeedRule (toLowerCase tx) (toLowerCase (declaredOrUnknown dt)) \<Longrightarrow>
   resolveType tx dt = ''Sale Deed''"
  by (simp add: resolveType_def Let_def)


lemma resolveType_declared:
  "\<not> propertyRule (toLowerCase tx) (toLowerCase (declaredOrUnknown dt)) \<Longrightarrow>
   \<not> saleDeedRule (toLowerCase tx) (toLowerCase (declaredOrUnknown dt)) \<Longrightarrow>
   \<not> bondRule (toLowerCase tx) (toLowerCase (declaredOrUnknown dt)) \<Longrightarrow>
   resolveType tx dt = declaredOrUnknown dt"
  by (simp add: resolveType_def Let_def)

lemma resolveType_cases:
  "resolveType tx dt = ''Property Document'' \<or> resolveType tx dt = ''Sale Deed'' \<or>
   resolveType tx dt = ''Bond Paper'' \<or>
   (resolveType tx dt = declaredOrUnknown dt \<and>
    \<not> propertyRule (toLowerCase tx) (toLowerCase (declaredOrUnknown dt)) \<and>
    \<not> saleDeedRule (toLowerCase tx) (toLowerCase (declaredOrUnknown dt)) \<and>
    \<not> bondRule (toLowerCase tx) (toLowerCase (declaredOrUnknown dt)))"
  by (simp add: resolveType_def Let_def)

lemma bond_paper_lower: "toLowerCase ''Bond Paper'' = ''bond paper''"
  by code_simp

lemma deed_lower: "toLowerCase ''Deed'' = ''deed''"
  by code_simp

lemma no_property_in_bond_paper: "\<not> str_includes ''bond paper'' ''property''"
  by code_simp

text \<open>
  Claim C1. The three rules run in a fixed order and the last one that matches decides.
  A text that holds a bond keyword and a property keyword is a Property Document, and so
  never a Bond Paper, whatever the declared type. A text that holds \<open>sale deed\<close>, with
  the declared type \<open>Bond Paper\<close>, is a Sale Deed, unless a property keyword occurs in
  the text as well: then it is a Property Document.
\<close>

theorem last_match_wins:
  "(textHasBond (toLowerCase tx) \<and> textHasProperty (toLowerCase tx) \<longrightarrow>
      documentType (simulateLegalAnalysis tx dt) = ''Property Document'' \<and>
      documentType (simulateLegalAnalysis tx dt) \<noteq> ''Bond Paper'') \<and>
   (str_includes (toLowerCase tx) ''sale deed'' \<longrightarrow>
      documentType (simulateLegalAnalysis tx (Some ''Bond Paper'')) =
        (if textHasProperty (toLowerCase tx) then ''Property Document'' else ''Sale Deed''))"
proof (intro conjI impI)
  assume h: "textHasBond (toLowerCase tx) \<and> textHasProperty (toLowerCase tx)"
  then have "propertyRule (toLowerCase tx) (toLowerCase (declaredOrUnknown dt))"
    by (simp add: propertyRule_def)
  then show p: "documentType (simulateLegalAnalysis tx dt) = ''Property Document''"
    by (simp add: resolveType_property)
  show "documentType (simulateLegalAnalysis tx dt) \<noteq> ''Bond Paper''"
    unfolding p by simp
next
  assume s: "str_includes (toLowerCase tx) ''sale deed''"
  have d: "toLowerCase (declaredOrUnknown (Some ''Bond Paper'')) = ''bond paper''"
    by (simp add: declaredOrUnknown_def bond_paper_lower)
  have sale: "saleDeedRule (toLowerCase tx) ''bond paper''"
    using s by (simp add: saleDeedRule_def textHasSaleDeed_def)
  have pr: "propertyRule (toLowerCase tx) ''bond paper'' = textHasProperty (toLowerCase tx)"
    by (simp add: propertyRule_def no_property_in_bond_paper)
  show "documentType (simulateLegalAnalysis tx (Some ''Bond Paper'')) =
        (if textHasProperty (toLowerCase tx) then ''Property Document'' else ''Sale Deed'')"
  proof (cases "textHasProperty (toLowerCase tx)")
    case True
    then show ?thesis
      using resolveType_property [of tx "Some ''Bond Paper''"] d pr by simp
  next
    case False
    then show ?thesis
      using resolveType_sale [of tx "Some ''Bond Paper''"] d pr sale by simp
  qed
qed

theorem last_match_wins_witness:
  "textHasBond (toLowerCase ''Bond over LAND'') \<and>
   textHasProperty (toLowerCase ''Bond over LAND'') \<and>
   documentType (simulateLegalAnalysis ''Bond over LAND'' (Some ''Bond Paper'')) =
     ''Property Document'' \<and>
   str_includes (toLowerCase ''a Sale Deed'') ''sale deed'' \<and>
   \<not> textHasProperty (toLowerCase ''a Sale Deed'') \<and>
   documentType (simulateLegalAnalysis ''a Sale Deed'' (Some ''Bond Paper'')) = ''Sale Deed''"
proof -
  have a: "textHasBond (toLowerCase ''Bond over LAND'') \<and>
           textHasProperty (toLowerCase ''Bond over LAND'')"
    by code_simp
  have b: "str_includes (toLowerCase ''a Sale Deed'') ''sale deed''"
    by code_simp
  have c: "\<not> textHasProperty (toLowerCase ''a Sale Deed'')"
    by code_simp
  show ?thesis
    using a b c last_match_wins [of "''Bond over LAND''" "Some ''Bond Paper''"]
      last_match_wins [of "''a Sale Deed''" None]
    by simp
qed

text \<open>
  Claim C2. For every text and declared type, \<open>isValid\<close> holds exactly when
  \<open>complianceStatus\<close> is \<open>compliant\<close>, and that exactly when the resolved label is
  not \<open>Unknown\<close>.
\<close>

theorem validity_invariant:
  "(isValid (simulateLegalAnalysis tx dt) =
      (complianceStatus (simulateLegalAnalysis tx dt) = ''compliant'')) \<and>
   ((complianceStatus (simulateLegalAnalysis tx dt) = ''compliant'') =
      (documentType (simulateLegalAnalysis tx dt) \<noteq> ''Unknown''))"
  by (simp add: simulateLegalAnalysis_def Let_def)

text \<open>
  Claim C8. The resolved label is never \<open>Deed\<close>: no rule assigns it, and the declared
  type \<open>Deed\<close> contains \<open>deed\<close>, which makes the Sale Deed rule fire. So the warnings
  and the recommendations of the \<open>Deed\<close> branch are never returned.
\<close>

theorem label_never_Deed:
  "documentType (simulateLegalAnalysis tx dt) \<noteq> ''Deed'' \<and>
   warnings (simulateLegalAnalysis tx dt) \<noteq> warningsFor ''Deed'' \<and>
   recommendations (simulateLegalAnalysis tx dt) \<noteq> recommendationsFor ''Deed''"
proof -
  have nd: "resolveType tx dt \<noteq> ''Deed''"
  proof
    assume e: "resolveType tx dt = ''Deed''"
    with resolveType_cases [of tx dt]
    have d: "declaredOrUnknown dt = ''Deed''"
      and ns: "\<not> saleDeedRule (toLowerCase tx) (toLowerCase (declaredOrUnknown dt))"
      by auto
    have "saleDeedRule (toLowerCase tx) (toLowerCase (declaredOrUnknown dt))"
      unfolding d deed_lower by (simp add: saleDeedRule_def str_includes_def)
    with ns show False by simp
  qed
  have w: "warningsFor t = warningsFor ''Deed'' \<Longrightarrow> t = ''Deed''" for t
    by (simp add: warningsFor_def split: if_splits)
  have r: "recommendationsFor t = recommendationsFor ''Deed'' \<Longrightarrow> t = ''Deed''" for t
    by (simp add: recommendationsFor_def split: if_splits)
  have "warnings (simulateLegalAnalysis tx dt) = warningsFor (resolveType tx dt)"
    "recommendations (simulateLegalAnalysis tx dt) = recommendationsFor (resolveType tx dt)"
    by (simp_all add: simulateLegalAnalysis_def Let_def)
  with nd w r show ?thesis by auto
qed

lemma documentTypes_simps:
  "''Property Document'' \<in> set documentTypes" "''Sale Deed'' \<in> set documentTypes"
  "''Bond Paper'' \<in> set documentTypes" "''Unknown'' \<in> set documentTypes"
  by (simp_all add: documentTypes_def)

text \<open>
  Claim C3, as stated, fails: the declared type \<open>Memo\<close> with the text \<open>hello\<close>
  matches no rule, and the label is the declared type, which is none of the seven.
\<close>

theorem label_outside_documentTypes:
  "documentType (simulateLegalAnalysis ''hello'' (Some ''Memo'')) = ''Memo'' \<and>
   ''Memo'' \<notin> set documentTypes"
  by code_simp

text \<open>
  Claim C3, amended. The resolved label is one of the seven values whenever the
  declared type is absent, empty or one of the seven, and, for any declared type,
  whenever one of the three rules matches.
\<close>

theorem label_in_documentTypes:
  "(declaredOrUnknown dt \<in> set documentTypes \<longrightarrow>
    documentType (simulateLegalAnalysis tx dt) \<in> set documentTypes) \<and>
   (bondRule (toLowerCase tx) (toLowerCase (declaredOrUnknown dt)) \<or>
    saleDeedRule (toLowerCase tx) (toLowerCase (declaredOrUnknown dt)) \<or>
    propertyRule (toLowerCase tx) (toLowerCase (declaredOrUnknown dt)) \<longrightarrow>
    documentType (simulateLegalAnalysis tx dt) \<in> set documentTypes)"
proof (intro conjI impI)
  assume "declaredOrUnknown dt \<in> set documentTypes"
  then show "documentType (simulateLegalAnalysis tx dt) \<in> set documentTypes"
    using resolveType_cases [of tx dt] by (auto simp: documentTypes_simps)
next
  assume "bondRule (toLowerCase tx) (toLowerCase (declaredOrUnknown dt)) \<or>
    saleDeedRule (toLowerCase tx) (toLowerCase (declaredOrUnknown dt)) \<or>
    propertyRule (toLowerCase tx) (toLowerCase (declaredOrUnknown dt))"
  then show "documentType (simulateLegalAnalysis tx dt) \<in> set documentTypes"
    using resolveType_cases [of tx dt] by (auto simp: documentTypes_simps)
qed

theorem label_in_documentTypes_witness:
  "declaredOrUnknown (Some ''Invoice'') \<in> set documentTypes \<and>
   documentType (simulateLegalAnalysis ''hello'' (Some ''Invoice'')) \<in> set documentTypes \<and>
   declaredOrUnknown None \<in> set documentTypes \<and>
   documentType (simulateLegalAnalysis ''hello'' None) \<in> set documentTypes \<and>
   bondRule (toLowerCase ''a BOND'') (toLowerCase (declaredOrUnknown (Some ''Memo''))) \<and>
   documentType (simulateLegalAnalysis ''a BOND'' (Some ''Memo'')) \<in> set documentTypes"
proof -
  have a: "declaredOrUnknown (Some ''Invoice'') \<in> set documentTypes"
    by code_simp
  have b: "bondRule (toLowerCase ''a BOND'') (toLowerCase (declaredOrUnknown (Some ''Memo'')))"
    by code_simp
  have c: "declaredOrUnknown None \<in> set documentTypes"
    by code_simp
  show ?thesis
    using a b c label_in_documentTypes [of "Some ''Invoice''" "''hello''"]
      label_in_documentTypes [of "Some ''Memo''" "''a BOND''"]
      label_in_documentTypes [of None "''hello''"]
    by blast
qed

section \<open>Properties of the enhancement\<close>

lemma attach_simps [simp]:
  "documentType (attachComplianceDetails r) = documentType r"
  "isValid (attachComplianceDetails r) = isValid r"
  "legalFrameworks (attachComplianceDetails r) = legalFrameworks r"
  by (simp_all add: attachComplianceDetails_def)

lemma propertyTreatment_attach:
  "documentType r = ''Property Document'' \<Longrightarrow>
   propertyTreatment (attachComplianceDetails r) =
     Inr (r\<lparr> legalFrameworks := legalFrameworks r @ propertyFrameworks,
             complianceDetails :=
               Some (if isValid r
                     then validDetails\<lparr> reraCompliance := Some ''Verified'',
                                        boundaryVerification := Some ''Completed'',
                                        encumbranceStatus := Some ''Clear'' \<rparr>
                     else invalidDetails\<lparr> missingElements :=
                            Some (the (missingElements invalidDetails) @
                                  [''RERA registration details'']),
                          nonComplianceRisks :=
                            Some (the (nonComplianceRisks invalidDetails) @
                                  [''Potential boundary disputes'']) \<rparr>) \<rparr>)"
  by (simp add: propertyTreatment_def attachComplianceDetails_def Let_def validDetails_def
      invalidDetails_def)

lemma propertyTreatment_other:
  "documentType r \<noteq> ''Property Document'' \<Longrightarrow> propertyTreatment r = Inr r"
  by (simp add: propertyTreatment_def)

lemma legalFrameworks_simulate [simp]:
  "legalFrameworks (simulateLegalAnalysis tx dt) = baseFrameworks"
  by (simp add: simulateLegalAnalysis_def Let_def)

lemma enhancedResults_cases:
  "(documentType (simulateLegalAnalysis (extractTextFromDocument doc) (d_documentType doc)) =
      ''Property Document'' \<and>
    (\<exists>r. enhancedResults doc = Inr r \<and> documentType r = ''Property Document'' \<and>
         legalFrameworks r = baseFrameworks @ propertyFrameworks)) \<or>
   (\<exists>r. enhancedResults doc = Inr r \<and> documentType r \<noteq> ''Property Document'')"
proof (cases "documentType (simulateLegalAnalysis (extractTextFromDocument doc)
    (d_documentType doc)) = ''Property Document''")
  case True
  show ?thesis
    unfolding enhancedResults_def Let_def propertyTreatment_attach [OF True]
    using True by simp
next
  case False
  then have "propertyTreatment (attachComplianceDetails
      (simulateLegalAnalysis (extractTextFromDocument doc) (d_documentType doc))) =
    Inr (attachComplianceDetails
      (simulateLegalAnalysis (extractTextFromDocument doc) (d_documentType doc)))"
    by (intro propertyTreatment_other) simp
  then show ?thesis
    unfolding enhancedResults_def Let_def using False by simp
qed

lemma enhancedResults_resolves: "\<exists>r. enhancedResults doc = Inr r"
  using enhancedResults_cases [of doc] by blast

text \<open>
  Claim C5. A result labelled \<open>Property Document\<close> leaves the enhancement with six
  legal frameworks: the four of the classifier, then the RERA Act 2016 and the property
  sections of the Registration Act. The two are appended to any results object with
  that label, valid or not (first part); the classifier's results and the object that
  \<open>analyzeDocument\<close> serialises follow.
\<close>

theorem property_document_frameworks:
  "(documentType r0 = ''Property Document'' \<longrightarrow>
      (case propertyTreatment (attachComplianceDetails r0) of
         Inl e \<Rightarrow> False
       | Inr r \<Rightarrow> legalFrameworks r = legalFrameworks r0 @ propertyFrameworks)) \<and>
   (documentType (simulateLegalAnalysis tx dt) = ''Property Document'' \<longrightarrow>
      (case propertyTreatment (attachComplianceDetails (simulateLegalAnalysis tx dt)) of
         Inl e \<Rightarrow> False
       | Inr r \<Rightarrow>
           legalFrameworks r = baseFrameworks @ propertyFrameworks \<and>
           length (legalFrameworks r) = 6)) \<and>
   (case enhancedResults doc of
      Inl e \<Rightarrow> False
    | Inr r \<Rightarrow>
        documentType r = ''Property Document'' \<longrightarrow>
        legalFrameworks r = baseFrameworks @ propertyFrameworks \<and>
        length (legalFrameworks r) = 6)"
proof (intro conjI impI)
  assume "documentType r0 = ''Property Document''"
  then show "case propertyTreatment (attachComplianceDetails r0) of
         Inl e \<Rightarrow> False
       | Inr r \<Rightarrow> legalFrameworks r = legalFrameworks r0 @ propertyFrameworks"
    by (simp add: propertyTreatment_attach)
next
  assume p: "documentType (simulateLegalAnalysis tx dt) = ''Property Document''"
  have "length (baseFrameworks @ propertyFrameworks) = 6"
    by (simp add: baseFrameworks_def propertyFrameworks_def)
  then show "case propertyTreatment (attachComplianceDetails (simulateLegalAnalysis tx dt)) of
         Inl e \<Rightarrow> False
       | Inr r \<Rightarrow>
           legalFrameworks r = baseFrameworks @ propertyFrameworks \<and>
           length (legalFrameworks r) = 6"
    unfolding propertyTreatment_attach [OF p] by simp
next
  have "length (baseFrameworks @ propertyFrameworks) = 6"
    by (simp add: baseFrameworks_def propertyFrameworks_def)
  then show "case enhancedResults doc of
      Inl e \<Rightarrow> False
    | Inr r \<Rightarrow>
        documentType r = ''Property Document'' \<longrightarrow>
        legalFrameworks r = baseFrameworks @ propertyFrameworks \<and>
        length (legalFrameworks r) = 6"
    using enhancedResults_cases [of doc] by auto
qed

theorem property_document_frameworks_witness:
  "documentType invalidPropertyResults = ''Property Document'' \<and>
   \<not> isValid invalidPropertyResults \<and>
   (case propertyTreatment (attachComplianceDetails invalidPropertyResults) of
      Inl e \<Rightarrow> False
    | Inr r \<Rightarrow> legalFrameworks r = baseFrameworks @ propertyFrameworks) \<and>
   documentType (simulateLegalAnalysis ''This property title transfer'' (Some ''Sale Deed'')) =
     ''Property Document'' \<and>
   (case propertyTreatment (attachComplianceDetails
           (simulateLegalAnalysis ''This property title transfer'' (Some ''Sale Deed''))) of
      Inl e \<Rightarrow> False
    | Inr r \<Rightarrow> length (legalFrameworks r) = 6) \<and>
   (case enhancedResults flatDocument of
      Inl e \<Rightarrow> False
    | Inr r \<Rightarrow> documentType r = ''Property Document'' \<and> length (legalFrameworks r) = 6)"
proof -
  have a: "documentType invalidPropertyResults = ''Property Document''"
    by (simp add: invalidPropertyResults_def)
  have b: "\<not> isValid invalidPropertyResults"
    by code_simp
  have c: "legalFrameworks invalidPropertyResults = baseFrameworks"
    by (simp add: invalidPropertyResults_def)
  have d: "documentType (simulateLegalAnalysis ''This property title transfer''
      (Some ''Sale Deed'')) = ''Property Document''"
    by code_simp
  have e: "case enhancedResults flatDocument of
      Inl e \<Rightarrow> False | Inr r \<Rightarrow> documentType r = ''Property Document''"
    by code_simp
  show ?thesis
    using a b c d e
      property_document_frameworks [of invalidPropertyResults
        "''This property title transfer''" "Some ''Sale Deed''" flatDocument]
    by (auto split: sum.splits)
qed

text \<open>
  Claim C9. A classification labelled \<open>Property Document\<close> is valid. The enhancement
  therefore takes the valid branch: it returns the valid shape of the details with the
  three property fields set, and the lists of the invalid shape stay absent.
\<close>

theorem property_document_is_valid:
  "documentType (simulateLegalAnalysis tx dt) = ''Property Document'' \<longrightarrow>
     isValid (simulateLegalAnalysis tx dt) \<and>
     propertyTreatment (attachComplianceDetails (simulateLegalAnalysis tx dt)) =
       Inr ((simulateLegalAnalysis tx dt)
              \<lparr> legalFrameworks := baseFrameworks @ propertyFrameworks,
                complianceDetails :=
                  Some (validDetails\<lparr> reraCompliance := Some ''Verified'',
                                      boundaryVerification := Some ''Completed'',
                                      encumbranceStatus := Some ''Clear'' \<rparr>) \<rparr>) \<and>
     missingElements (validDetails\<lparr> reraCompliance := Some ''Verified'',
                                   boundaryVerification := Some ''Completed'',
                                   encumbranceStatus := Some ''Clear'' \<rparr>) = None \<and>
     nonComplianceRisks (validDetails\<lparr> reraCompliance := Some ''Verified'',
                                      boundaryVerification := Some ''Completed'',
                                      encumbranceStatus := Some ''Clear'' \<rparr>) = None"
proof
  assume p: "documentType (simulateLegalAnalysis tx dt) = ''Property Document''"
  then have v: "isValid (simulateLegalAnalysis tx dt)" by simp
  show "isValid (simulateLegalAnalysis tx dt) \<and>
     propertyTreatment (attachComplianceDetails (simulateLegalAnalysis tx dt)) =
       Inr ((simulateLegalAnalysis tx dt)
              \<lparr> legalFrameworks := baseFrameworks @ propertyFrameworks,
                complianceDetails :=
                  Some (validDetails\<lparr> reraCompliance := Some ''Verified'',
                                      boundaryVerification := Some ''Completed'',
                                      encumbranceStatus := Some ''Clear'' \<rparr>) \<rparr>) \<and>
     missingElements (validDetails\<lparr> reraCompliance := Some ''Verified'',
                                   boundaryVerification := Some ''Completed'',
                                   encumbranceStatus := Some ''Clear'' \<rparr>) = None \<and>
     nonComplianceRisks (validDetails\<lparr> reraCompliance := Some ''Verified'',
                                      boundaryVerification := Some ''Completed'',
                                      encumbranceStatus := Some ''Clear'' \<rparr>) = None"
    using v propertyTreatment_attach [OF p] by (simp add: validDetails_def)
qed

theorem property_document_is_valid_witness:
  "documentType (simulateLegalAnalysis ''Flat for rent'' None) = ''Property Document'' \<and>
   isValid (simulateLegalAnalysis ''Flat for rent'' None) \<and>
   propertyTreatment (attachComplianceDetails (simulateLegalAnalysis ''Flat for rent'' None)) =
     Inr ((simulateLegalAnalysis ''Flat for rent'' None)
            \<lparr> legalFrameworks := baseFrameworks @ propertyFrameworks,
              complianceDetails :=
                Some (validDetails\<lparr> reraCompliance := Some ''Verified'',
                                    boundaryVerification := Some ''Completed'',
                                    encumbranceStatus := Some ''Clear'' \<rparr>) \<rparr>)"
proof -
  have a: "documentType (simulateLegalAnalysis ''Flat for rent'' None) = ''Property Document''"
    by code_simp
  show ?thesis
    using a property_document_is_valid [of "''Flat for rent''" None] by blast
qed

section \<open>Properties of the storage and of analyzeDocument\<close>

lemma update_fresh: "k \<notin> fst ` set al \<Longrightarrow> AList.update k v al = al @ [(k, v)]"
  by (induction al) auto

lemma counter_fresh: "idsBelowCounter s \<Longrightarrow> currentAnalysisId s \<notin> fst ` set (analyses s)"
  by (auto simp: idsBelowCounter_def list_all_iff)

lemma createAnalysis_appends:
  "idsBelowCounter s \<Longrightarrow>
   createAnalysis ins s =
     (analysisRecord ins (currentAnalysisId s) (clock s (dateReads s)),
      s\<lparr> currentAnalysisId := currentAnalysisId s + 1, dateReads := dateReads s + 1,
         analyses := analyses s @
           [(currentAnalysisId s, analysisRecord ins (currentAnalysisId s) (clock s (dateReads s)))] \<rparr>)"
  by (simp add: createAnalysis_def Let_def update_fresh counter_fresh)

lemma createAnalysis_keeps_ids:
  "idsBelowCounter s \<Longrightarrow> idsBelowCounter (snd (createAnalysis ins s))"
  by (auto simp: createAnalysis_appends) (auto simp: idsBelowCounter_def list_all_iff)

lemma updateDocumentStatus_analyses [simp]:
  "analyses (snd (updateDocumentStatus i st s)) = analyses s"
  "currentAnalysisId (snd (updateDocumentStatus i st s)) = currentAnalysisId s"
  "clock (snd (updateDocumentStatus i st s)) = clock s"
  "dateReads (snd (updateDocumentStatus i st s)) = dateReads s"
  by (simp_all add: updateDocumentStatus_def Let_def split: option.splits)

lemma updateDocumentStatus_ids [simp]:
  "idsBelowCounter (snd (updateDocumentStatus i st s)) = idsBelowCounter s"
  by (simp add: idsBelowCounter_def)

lemma createDocument_analyses [simp]:
  "analyses (snd (createDocument ins s)) = analyses s"
  "currentAnalysisId (snd (createDocument ins s)) = currentAnalysisId s"
  "clock (snd (createDocument ins s)) = clock s"
  by (simp_all add: createDocument_def Let_def)

lemma createDocument_ids [simp]:
  "idsBelowCounter (snd (createDocument ins s)) = idsBelowCounter s"
  by (simp add: idsBelowCounter_def)

lemma storage_ops [simp]:
  "createAnalysis_op storage ins s = (Inr (fst (createAnalysis ins s)), snd (createAnalysis ins s))"
  "updateDocumentStatus_op storage i st s =
     (Inr (fst (updateDocumentStatus i st s)), snd (updateDocumentStatus i st s))"
  by (simp_all add: storage_def split: prod.splits)

lemma faulty_ops [simp]:
  "createAnalysis_op (faultyStorage rc ru) ins s =
     (if rc ins s then (Inl (StorageError ''insert failed''), s)
      else (Inr (fst (createAnalysis ins s)), snd (createAnalysis ins s)))"
  "updateDocumentStatus_op (faultyStorage rc ru) i st s =
     (if ru i st s then (Inl (StorageError ''update failed''), s)
      else (Inr (fst (updateDocumentStatus i st s)), snd (updateDocumentStatus i st s)))"
  by (simp_all add: faultyStorage_def split: prod.splits)

lemma analyzeDocument_storage:
  assumes "enhancedResults doc = Inr r"
  shows "analyzeDocument storage doc s =
     (let s0 = snd (createAnalysis (initialAnalysis doc) s);
          s1 = snd (updateDocumentStatus (d_id doc) (if isValid r then ''valid'' else ''invalid'') s0)
      in (Inr (fst (createAnalysis (updatedAnalysis doc r) s1)),
          snd (createAnalysis (updatedAnalysis doc r) s1)))"
  using assms by (simp add: analyzeDocument_def tryBlock_def Let_def)

lemma analyzeDocument_storage_analyses:
  assumes e: "enhancedResults doc = Inr r" and w: "idsBelowCounter s"
  shows "fst (analyzeDocument storage doc s) =
           Inr (analysisRecord (updatedAnalysis doc r) (currentAnalysisId s + 1) (clock s (dateReads s + 1)))"
    and "analyses (snd (analyzeDocument storage doc s)) =
           analyses s @
           [(currentAnalysisId s, analysisRecord (initialAnalysis doc) (currentAnalysisId s) (clock s (dateReads s))),
            (currentAnalysisId s + 1,
             analysisRecord (updatedAnalysis doc r) (currentAnalysisId s + 1) (clock s (dateReads s + 1)))]"
    and "currentAnalysisId (snd (analyzeDocument storage doc s)) = currentAnalysisId s + 2"
    and "idsBelowCounter (snd (analyzeDocument storage doc s))"
proof -
  let ?s0 = "snd (createAnalysis (initialAnalysis doc) s)"
  let ?s1 = "snd (updateDocumentStatus (d_id doc) (if isValid r then ''valid'' else ''invalid'') ?s0)"
  have w0: "idsBelowCounter ?s0" using w by (rule createAnalysis_keeps_ids)
  then have w1: "idsBelowCounter ?s1" by simp
  have a0: "analyses ?s0 = analyses s @ [(currentAnalysisId s, analysisRecord (initialAnalysis doc) (currentAnalysisId s) (clock s (dateReads s)))]"
    and c0: "currentAnalysisId ?s0 = currentAnalysisId s + 1" and k0: "clock ?s0 = clock s"
    and r0: "dateReads ?s0 = dateReads s + 1"
    using w by (simp_all add: createAnalysis_appends)
  have a1: "analyses ?s1 = analyses ?s0" and c1: "currentAnalysisId ?s1 = currentAnalysisId ?s0"
    and k1: "clock ?s1 = clock ?s0" and r1: "dateReads ?s1 = dateReads ?s0"
    by simp_all
  have fin: "createAnalysis (updatedAnalysis doc r) ?s1 =
     (analysisRecord (updatedAnalysis doc r) (currentAnalysisId s + 1) (clock s (dateReads s + 1)),
      ?s1\<lparr> currentAnalysisId := currentAnalysisId s + 1 + 1,
         dateReads := dateReads s + 1 + 1,
         analyses := analyses s @ [(currentAnalysisId s, analysisRecord (initialAnalysis doc) (currentAnalysisId s) (clock s (dateReads s)))] @
           [(currentAnalysisId s + 1, analysisRecord (updatedAnalysis doc r) (currentAnalysisId s + 1) (clock s (dateReads s + 1)))] \<rparr>)"
    using createAnalysis_appends [OF w1, of "updatedAnalysis doc r"]
    unfolding a1 c1 k1 r1 a0 c0 k0 r0 by simp
  have run: "analyzeDocument storage doc s =
     (Inr (fst (createAnalysis (updatedAnalysis doc r) ?s1)), snd (createAnalysis (updatedAnalysis doc r) ?s1))"
    using analyzeDocument_storage [OF e, of s] by (simp add: Let_def)
  show "fst (analyzeDocument storage doc s) =
           Inr (analysisRecord (updatedAnalysis doc r) (currentAnalysisId s + 1) (clock s (dateReads s + 1)))"
    unfolding run fin by simp
  show "analyses (snd (analyzeDocument storage doc s)) =
           analyses s @
           [(currentAnalysisId s, analysisRecord (initialAnalysis doc) (currentAnalysisId s) (clock s (dateReads s))),
            (currentAnalysisId s + 1,
             analysisRecord (updatedAnalysis doc r) (currentAnalysisId s + 1) (clock s (dateReads s + 1)))]"
    unfolding run fin by simp
  show "currentAnalysisId (snd (analyzeDocument storage doc s)) = currentAnalysisId s + 2"
    unfolding run fin by simp
  show "idsBelowCounter (snd (analyzeDocument storage doc s))"
    unfolding run using w1 by (simp add: createAnalysis_keeps_ids)
qed

lemma perform_keeps_ids: "idsBelowCounter s \<Longrightarrow> idsBelowCounter (perform c s)"
proof (cases c)
  case (AnalyzeDocument doc)
  assume w: "idsBelowCounter s"
  obtain r where "enhancedResults doc = Inr r" using enhancedResults_resolves by blast
  from analyzeDocument_storage_analyses(4) [OF this w] AnalyzeDocument show ?thesis by simp
qed simp_all

lemma performAll_keeps_ids: "idsBelowCounter s \<Longrightarrow> idsBelowCounter (performAll cs s)"
  by (induction cs arbitrary: s) (simp_all add: perform_keeps_ids)

lemma new_ids: "idsBelowCounter (MemStorage_new clk)"
  by (simp add: idsBelowCounter_def MemStorage_new_def)

lemma find_append:
  "find P (xs @ ys) = (case find P xs of None \<Rightarrow> find P ys | Some x \<Rightarrow> Some x)"
  by (induction xs) simp_all

lemma analysisRecord_simps [simp]:
  "documentId (analysisRecord ins i t) = documentId ins"
  "a_isValid (analysisRecord ins i t) = a_isValid ins"
  "a_complianceStatus (analysisRecord ins i t) = a_complianceStatus ins"
  "issuesCount (analysisRecord ins i t) = issuesCount ins"
  "a_warnings (analysisRecord ins i t) = a_warnings ins"
  "a_recommendations (analysisRecord ins i t) = a_recommendations ins"
  "analysisData (analysisRecord ins i t) = analysisData ins"
  "a_id (analysisRecord ins i t) = i"
  by (simp_all add: analysisRecord_def)

lemma lookup_after_run:
  assumes w: "idsBelowCounter s"
  shows "getAnalysisByDocumentId did (snd (analyzeDocument storage doc s)) =
     (case getAnalysisByDocumentId did s of
        Some a \<Rightarrow> Some a
      | None \<Rightarrow>
          if d_id doc = did
          then Some (analysisRecord (initialAnalysis doc) (currentAnalysisId s) (clock s (dateReads s)))
          else None)"
proof -
  obtain r where e: "enhancedResults doc = Inr r" using enhancedResults_resolves by blast
  show ?thesis
    unfolding getAnalysisByDocumentId_def analyzeDocument_storage_analyses(2) [OF e w]
    by (simp add: find_append initialAnalysis_def updatedAnalysis_def split: option.splits)
qed

lemma lookup_other_calls [simp]:
  "getAnalysisByDocumentId did (snd (createDocument ins s)) = getAnalysisByDocumentId did s"
  "getAnalysisByDocumentId did (snd (updateDocumentStatus i st s)) = getAnalysisByDocumentId did s"
  by (simp_all add: getAnalysisByDocumentId_def)

lemma perform_keeps_placeholders:
  assumes "idsBelowCounter s" "\<forall>did a. getAnalysisByDocumentId did s = Some a \<longrightarrow> isPlaceholder a"
  shows "\<forall>did a. getAnalysisByDocumentId did (perform c s) = Some a \<longrightarrow> isPlaceholder a"
proof (cases c)
  case (AnalyzeDocument doc)
  show ?thesis
    using assms(2) unfolding AnalyzeDocument perform.simps
      lookup_after_run [OF assms(1)]
    by (auto simp: initialAnalysis_def isPlaceholder_def split: option.splits if_splits)
qed (use assms in simp_all)

lemma performAll_placeholder:
  assumes "idsBelowCounter s" "\<forall>did a. getAnalysisByDocumentId did s = Some a \<longrightarrow> isPlaceholder a"
    "AnalyzeDocument doc \<in> set cs"
  shows "\<exists>a. getAnalysisByDocumentId (d_id doc) (performAll cs s) = Some a \<and>
     isPlaceholder a"
  using assms
proof (induction cs arbitrary: s)
  case Nil
  then show ?case by simp
next
  case (Cons c cs)
  have w: "idsBelowCounter (perform c s)" using Cons.prems(1) by (rule perform_keeps_ids)
  have p: "\<forall>did a. getAnalysisByDocumentId did (perform c s) = Some a \<longrightarrow> isPlaceholder a"
    using Cons.prems(1,2) by (rule perform_keeps_placeholders)
  show ?case
  proof (cases "AnalyzeDocument doc \<in> set cs")
    case True
    from Cons.IH [OF w p True] show ?thesis by simp
  next
    case False
    with Cons.prems(3) have c: "c = AnalyzeDocument doc" by simp
    have "getAnalysisByDocumentId (d_id doc) (perform c s) \<noteq> None"
      unfolding c perform.simps lookup_after_run [OF Cons.prems(1)]
      by (simp split: option.splits)
    then obtain a where a: "getAnalysisByDocumentId (d_id doc) (perform c s) = Some a" by blast
    have keep: "getAnalysisByDocumentId did (performAll ds t) = Some b"
      if "idsBelowCounter t" "getAnalysisByDocumentId did t = Some b" for ds t did b
      using that
    proof (induction ds arbitrary: t)
      case Nil
      then show ?case by simp
    next
      case (Cons d ds)
      have "getAnalysisByDocumentId did (perform d t) = Some b"
      proof (cases d)
        case (AnalyzeDocument doc')
        show ?thesis
          unfolding AnalyzeDocument perform.simps lookup_after_run [OF Cons.prems(1)]
          using Cons.prems(2) by simp
      qed (use Cons.prems(2) in simp_all)
      with Cons.IH [of "perform d t"] Cons.prems(1) show ?case
        by (simp add: perform_keeps_ids)
    qed
    have "getAnalysisByDocumentId (d_id doc) (performAll cs (perform c s)) = Some a"
      using keep [OF w a] .
    moreover have "isPlaceholder a"
      using p a by blast
    ultimately show ?thesis by simp
  qed
qed

lemma new_no_lookup:
  "\<forall>did a. getAnalysisByDocumentId did (MemStorage_new clk) = Some a \<longrightarrow> isPlaceholder a"
  by (simp add: getAnalysisByDocumentId_def MemStorage_new_def)

lemma enhancedResults_fields:
  assumes "enhancedResults doc = Inr r"
  shows "isValid r = isValid (simulateLegalAnalysis (extractTextFromDocument doc) (d_documentType doc))"
    and "complianceStatus r = complianceStatus (simulateLegalAnalysis (extractTextFromDocument doc) (d_documentType doc))"
    and "issues r = issues (simulateLegalAnalysis (extractTextFromDocument doc) (d_documentType doc))"
    and "warnings r = warnings (simulateLegalAnalysis (extractTextFromDocument doc) (d_documentType doc))"
    and "recommendations r = recommendations (simulateLegalAnalysis (extractTextFromDocument doc) (d_documentType doc))"
    and "documentType r = documentType (simulateLegalAnalysis (extractTextFromDocument doc) (d_documentType doc))"
proof -
  let ?R = "simulateLegalAnalysis (extractTextFromDocument doc) (d_documentType doc)"
  have "isValid r = isValid ?R \<and> complianceStatus r = complianceStatus ?R \<and>
    issues r = issues ?R \<and> warnings r = warnings ?R \<and>
    recommendations r = recommendations ?R \<and> documentType r = documentType ?R"
  proof (cases "documentType ?R = ''Property Document''")
    case True
    show ?thesis
      using assms unfolding enhancedResults_def Let_def propertyTreatment_attach [OF True]
      by auto
  next
    case False
    then have "propertyTreatment (attachComplianceDetails ?R) = Inr (attachComplianceDetails ?R)"
      by (intro propertyTreatment_other) simp
    then show ?thesis
      using assms unfolding enhancedResults_def Let_def
      by (auto simp: attachComplianceDetails_def)
  qed
  then show "isValid r = isValid ?R" "complianceStatus r = complianceStatus ?R"
    "issues r = issues ?R" "warnings r = warnings ?R"
    "recommendations r = recommendations ?R" "documentType r = documentType ?R"
    by simp_all
qed

lemma final_status:
  "case fst (analyzeDocument storage doc s) of
     Inl e \<Rightarrow> False
   | Inr a \<Rightarrow> a_complianceStatus a = Some ''compliant'' \<or> a_complianceStatus a = Some ''non-compliant''"
proof -
  obtain r where e: "enhancedResults doc = Inr r" using enhancedResults_resolves by blast
  have "complianceStatus r = ''compliant'' \<or> complianceStatus r = ''non-compliant''"
    unfolding enhancedResults_fields(2) [OF e] by (simp add: simulateLegalAnalysis_def Let_def)
  then show ?thesis
    unfolding analyzeDocument_storage [OF e] Let_def
    by (auto simp: createAnalysis_def Let_def updatedAnalysis_def)
qed

lemma getDocument_updateDocumentStatus:
  "getDocument i (snd (updateDocumentStatus i st s)) =
     map_option (\<lambda>d. d\<lparr> d_status := st \<rparr>) (getDocument i s)"
  by (simp add: updateDocumentStatus_def getDocument_def Let_def update_conv'
      split: option.splits)

lemma getDocument_createAnalysis [simp]:
  "getDocument i (snd (createAnalysis ins s)) = getDocument i s"
  by (simp add: createAnalysis_def getDocument_def Let_def)

lemma tryBlock_faulty_rejected:
  assumes "tryBlock (faultyStorage rc ru) doc s = (Inl e, s1)"
  shows "s1 = s \<or> (\<exists>st. s1 = snd (updateDocumentStatus (d_id doc) st s))"
proof -
  obtain r where r: "enhancedResults doc = Inr r" using enhancedResults_resolves by blast
  show ?thesis
    using assms unfolding tryBlock_def r
    by (auto split: if_splits)
qed

lemma fst_createAnalysis:
  "fst (createAnalysis ins s) =
     analysisRecord ins (currentAnalysisId s) (clock s (dateReads s))"
  by (simp add: createAnalysis_def Let_def)

lemma status_overwritten:
  "map_option (\<lambda>d. d\<lparr> d_status := ''error'' \<rparr>) (map_option (\<lambda>d. d\<lparr> d_status := st \<rparr>) x) =
   map_option (\<lambda>d. d\<lparr> d_status := ''error'' \<rparr>) x"
  by (cases x) simp_all

lemma createAnalysis_fields [simp]:
  "currentAnalysisId (snd (createAnalysis ins s)) = currentAnalysisId s + 1"
  "clock (snd (createAnalysis ins s)) = clock s"
  "dateReads (snd (createAnalysis ins s)) = dateReads s + 1"
  by (simp_all add: createAnalysis_def Let_def)

lemma createAnalysis_analyses:
  "idsBelowCounter s \<Longrightarrow>
   analyses (snd (createAnalysis ins s)) =
     analyses s @ [(currentAnalysisId s, analysisRecord ins (currentAnalysisId s) (clock s (dateReads s)))]"
  by (simp add: createAnalysis_appends)

lemma faulty_run_two_records:
  assumes w: "idsBelowCounter s"
    and run: "analyzeDocument (faultyStorage rc ru) doc s = (Inr a, s')"
    and r: "enhancedResults doc = Inr r"
  shows "analyses s' =
           analyses s @
           [(currentAnalysisId s, analysisRecord (initialAnalysis doc) (currentAnalysisId s) (clock s (dateReads s))),
            (currentAnalysisId s + 1, a)] \<and>
         (a = analysisRecord (updatedAnalysis doc r) (currentAnalysisId s + 1) (clock s (dateReads s + 1)) \<or>
          a = analysisRecord (errorAnalysis doc) (currentAnalysisId s + 1) (clock s (dateReads s + 1)))"
  using run w unfolding analyzeDocument_def tryBlock_def catchBlock_def r
  by (auto split: if_splits
      simp: createAnalysis_analyses createAnalysis_keeps_ids fst_createAnalysis)

lemma new_fields:
  "analyses (MemStorage_new clk) = []" "currentAnalysisId (MemStorage_new clk) = 1"
  "clock (MemStorage_new clk) = clk" "dateReads (MemStorage_new clk) = 0"
  "documents (MemStorage_new clk) = []"
  by (simp_all add: MemStorage_new_def)






lemma faulty_run_rejected:
  assumes w: "idsBelowCounter s"
    and run: "analyzeDocument (faultyStorage rc ru) doc s = (Inl e, s')"
    and r: "enhancedResults doc = Inr r"
  shows "if rc (initialAnalysis doc) s then s' = s
         else analyses s' =
           analyses s @
           [(currentAnalysisId s,
             analysisRecord (initialAnalysis doc) (currentAnalysisId s) (clock s (dateReads s)))]"
  using run w unfolding analyzeDocument_def tryBlock_def catchBlock_def r
  by (auto split: if_splits
      simp: createAnalysis_analyses createAnalysis_keeps_ids fst_createAnalysis)

text \<open>
  Claim C7. The first storage call of every run is \<open>createAnalysis\<close> with the
  placeholder (\<open>isValid\<close> null, status \<open>processing\<close>, no issues, empty lists, the
  empty object as data): when it rejects, the run ends there, and otherwise the rest of
  the run starts from the store it left. In every store that a history of calls
  reaches, and in any store whose keys lie below the counter, \<open>createAnalysis\<close> takes
  a key that is not in use and appends its record, leaving the others as they are. A
  run on the exported storage appends two records under two keys: the placeholder, and
  then the record it returns, which holds the validity, the status, the number of
  issues, the warnings and the recommendations of the classification and the results
  object as data, and is no placeholder. On a storage that fails, a run that resolves
  has appended the placeholder and then the record it returns, which holds either the
  result as before or the values of the error record; a run that rejects has left the
  store as it was when the placeholder was refused, and has appended the placeholder
  alone otherwise.
\<close>

theorem placeholder_then_result:
  "(case createAnalysis_op st (initialAnalysis doc) s0 of
      (Inl e, s') \<Rightarrow> analyzeDocument st doc s0 = (Inl e, s')
    | (Inr p, s') \<Rightarrow>
        analyzeDocument st doc s0 =
          (case tryBlock st doc s' of
             (Inr result, s1) \<Rightarrow> (Inr result, s1)
           | (Inl e, s1) \<Rightarrow> catchBlock st doc s1)) \<and>
   isPlaceholder (analysisRecord (initialAnalysis doc) ident t) \<and>
   documentId (analysisRecord (initialAnalysis doc) ident t) = d_id doc \<and>
   a_id (analysisRecord (initialAnalysis doc) ident t) = ident \<and>
   idsBelowCounter (performAll cs (MemStorage_new clk)) \<and>
   (idsBelowCounter s \<longrightarrow>
      map_of (analyses s) (currentAnalysisId s) = None \<and>
      idsBelowCounter (snd (createAnalysis ins s)) \<and>
      createAnalysis ins s =
        (analysisRecord ins (currentAnalysisId s) (clock s (dateReads s)),
         s\<lparr> currentAnalysisId := currentAnalysisId s + 1, dateReads := dateReads s + 1,
            analyses := analyses s @
              [(currentAnalysisId s,
                analysisRecord ins (currentAnalysisId s) (clock s (dateReads s)))] \<rparr>) \<and>
      (case analyzeDocument storage doc s of
         (Inl e, s') \<Rightarrow> False
       | (Inr b, s') \<Rightarrow>
           analyses s' =
             analyses s @
             [(currentAnalysisId s,
               analysisRecord (initialAnalysis doc) (currentAnalysisId s) (clock s (dateReads s))),
              (currentAnalysisId s + 1, b)] \<and>
           a_id b = currentAnalysisId s + 1 \<and>
           documentId b = d_id doc \<and>
           a_isValid b =
             Some (isValid (simulateLegalAnalysis (extractTextFromDocument doc)
               (d_documentType doc))) \<and>
           a_complianceStatus b =
             Some (complianceStatus (simulateLegalAnalysis (extractTextFromDocument doc)
               (d_documentType doc))) \<and>
           issuesCount b =
             Some (int (length (issues (simulateLegalAnalysis (extractTextFromDocument doc)
               (d_documentType doc))))) \<and>
           a_warnings b =
             Some (warnings (simulateLegalAnalysis (extractTextFromDocument doc)
               (d_documentType doc))) \<and>
           a_recommendations b =
             Some (recommendations (simulateLegalAnalysis (extractTextFromDocument doc)
               (d_documentType doc))) \<and>
           (case enhancedResults doc of
              Inl e \<Rightarrow> False
            | Inr r \<Rightarrow> analysisData b = Some (ResultsObject r)) \<and>
           \<not> isPlaceholder b) \<and>
      (case analyzeDocument (faultyStorage rc ru) doc s of
         (Inl e, s') \<Rightarrow>
           (if rc (initialAnalysis doc) s then s' = s
            else analyses s' =
              analyses s @
              [(currentAnalysisId s,
                analysisRecord (initialAnalysis doc) (currentAnalysisId s)
                  (clock s (dateReads s)))])
       | (Inr a, s') \<Rightarrow>
           analyses s' =
             analyses s @
             [(currentAnalysisId s,
               analysisRecord (initialAnalysis doc) (currentAnalysisId s) (clock s (dateReads s))),
              (currentAnalysisId s + 1, a)] \<and>
           a_id a = currentAnalysisId s + 1 \<and>
           documentId a = d_id doc \<and>
           \<not> isPlaceholder a \<and>
           (a_isValid a =
              Some (isValid (simulateLegalAnalysis (extractTextFromDocument doc)
                (d_documentType doc))) \<and>
            a_complianceStatus a =
              Some (complianceStatus (simulateLegalAnalysis (extractTextFromDocument doc)
                (d_documentType doc))) \<and>
            issuesCount a =
              Some (int (length (issues (simulateLegalAnalysis (extractTextFromDocument doc)
                (d_documentType doc))))) \<and>
            a_warnings a =
              Some (warnings (simulateLegalAnalysis (extractTextFromDocument doc)
                (d_documentType doc))) \<and>
            a_recommendations a =
              Some (recommendations (simulateLegalAnalysis (extractTextFromDocument doc)
                (d_documentType doc))) \<or>
            a_isValid a = Some False \<and>
            a_complianceStatus a = Some ''error'' \<and>
            issuesCount a = Some 1 \<and>
            a_warnings a = Some [''Analysis failed due to an error''] \<and>
            a_recommendations a = Some [''Please try again or contact support''] \<and>
            analysisData a = Some (ErrorObject ''Analysis failed''))))"
proof (intro conjI impI)
  show "case createAnalysis_op st (initialAnalysis doc) s0 of
      (Inl e, s') \<Rightarrow> analyzeDocument st doc s0 = (Inl e, s')
    | (Inr p, s') \<Rightarrow>
        analyzeDocument st doc s0 =
          (case tryBlock st doc s' of
             (Inr result, s1) \<Rightarrow> (Inr result, s1)
           | (Inl e, s1) \<Rightarrow> catchBlock st doc s1)"
    by (simp add: analyzeDocument_def split: prod.splits sum.splits)
  show "isPlaceholder (analysisRecord (initialAnalysis doc) ident t)"
    by (simp add: isPlaceholder_def initialAnalysis_def)
  show "documentId (analysisRecord (initialAnalysis doc) ident t) = d_id doc"
    by (simp add: initialAnalysis_def)
  show "a_id (analysisRecord (initialAnalysis doc) ident t) = ident"
    by simp
  show "idsBelowCounter (performAll cs (MemStorage_new clk))"
    by (simp add: performAll_keeps_ids new_ids)
next
  assume w: "idsBelowCounter s"
  let ?R = "simulateLegalAnalysis (extractTextFromDocument doc) (d_documentType doc)"
  let ?n = "currentAnalysisId s"
  let ?p = "analysisRecord (initialAnalysis doc) ?n (clock s (dateReads s))"
  show "map_of (analyses s) (currentAnalysisId s) = None"
    using counter_fresh [OF w] by (simp add: map_of_eq_None_iff)
  show "idsBelowCounter (snd (createAnalysis ins s))"
    using w by (rule createAnalysis_keeps_ids)
  show "createAnalysis ins s =
        (analysisRecord ins (currentAnalysisId s) (clock s (dateReads s)),
         s\<lparr> currentAnalysisId := currentAnalysisId s + 1, dateReads := dateReads s + 1,
            analyses := analyses s @
              [(currentAnalysisId s,
                analysisRecord ins (currentAnalysisId s) (clock s (dateReads s)))] \<rparr>)"
    using w by (rule createAnalysis_appends)
  obtain r where e: "enhancedResults doc = Inr r"
    using enhancedResults_resolves by blast
  note f = enhancedResults_fields [OF e]
  let ?b = "analysisRecord (updatedAnalysis doc r) (?n + 1) (clock s (dateReads s + 1))"
  have fin: "a_id ?b = ?n + 1 \<and> documentId ?b = d_id doc \<and>
      a_isValid ?b = Some (isValid ?R) \<and>
      a_complianceStatus ?b = Some (complianceStatus ?R) \<and>
      issuesCount ?b = Some (int (length (issues ?R))) \<and>
      a_warnings ?b = Some (warnings ?R) \<and>
      a_recommendations ?b = Some (recommendations ?R) \<and>
      analysisData ?b = Some (ResultsObject r) \<and> \<not> isPlaceholder ?b"
    by (simp add: updatedAnalysis_def f isPlaceholder_def)
  let ?c = "analysisRecord (errorAnalysis doc) (?n + 1) (clock s (dateReads s + 1))"
  have err: "a_id ?c = ?n + 1 \<and> documentId ?c = d_id doc \<and>
      a_isValid ?c = Some False \<and> a_complianceStatus ?c = Some ''error'' \<and>
      issuesCount ?c = Some 1 \<and>
      a_warnings ?c = Some [''Analysis failed due to an error''] \<and>
      a_recommendations ?c = Some [''Please try again or contact support''] \<and>
      analysisData ?c = Some (ErrorObject ''Analysis failed'') \<and> \<not> isPlaceholder ?c"
    by (simp add: errorAnalysis_def isPlaceholder_def)
  have run: "analyzeDocument storage doc s = (Inr ?b, snd (analyzeDocument storage doc s))"
    using analyzeDocument_storage_analyses(1) [OF e w]
    by (metis prod.collapse)
  have an: "analyses (snd (analyzeDocument storage doc s)) =
      analyses s @ [(?n, ?p), (?n + 1, ?b)]"
    using analyzeDocument_storage_analyses(2) [OF e w] .
  show "case analyzeDocument storage doc s of
         (Inl e, s') \<Rightarrow> False
       | (Inr b, s') \<Rightarrow>
           analyses s' =
             analyses s @
             [(currentAnalysisId s,
               analysisRecord (initialAnalysis doc) (currentAnalysisId s) (clock s (dateReads s))),
              (currentAnalysisId s + 1, b)] \<and>
           a_id b = currentAnalysisId s + 1 \<and>
           documentId b = d_id doc \<and>
           a_isValid b = Some (isValid ?R) \<and>
           a_complianceStatus b = Some (complianceStatus ?R) \<and>
           issuesCount b = Some (int (length (issues ?R))) \<and>
           a_warnings b = Some (warnings ?R) \<and>
           a_recommendations b = Some (recommendations ?R) \<and>
           (case enhancedResults doc of
              Inl e \<Rightarrow> False
            | Inr r \<Rightarrow> analysisData b = Some (ResultsObject r)) \<and>
           \<not> isPlaceholder b"
    by (subst run) (use an fin e in simp)
  show "case analyzeDocument (faultyStorage rc ru) doc s of
         (Inl e, s') \<Rightarrow>
           (if rc (initialAnalysis doc) s then s' = s
            else analyses s' =
              analyses s @
              [(currentAnalysisId s,
                analysisRecord (initialAnalysis doc) (currentAnalysisId s)
                  (clock s (dateReads s)))])
       | (Inr a, s') \<Rightarrow>
           analyses s' =
             analyses s @
             [(currentAnalysisId s,
               analysisRecord (initialAnalysis doc) (currentAnalysisId s) (clock s (dateReads s))),
              (currentAnalysisId s + 1, a)] \<and>
           a_id a = currentAnalysisId s + 1 \<and>
           documentId a = d_id doc \<and>
           \<not> isPlaceholder a \<and>
           (a_isValid a = Some (isValid ?R) \<and>
            a_complianceStatus a = Some (complianceStatus ?R) \<and>
            issuesCount a = Some (int (length (issues ?R))) \<and>
            a_warnings a = Some (warnings ?R) \<and>
            a_recommendations a = Some (recommendations ?R) \<or>
            a_isValid a = Some False \<and>
            a_complianceStatus a = Some ''error'' \<and>
            issuesCount a = Some 1 \<and>
            a_warnings a = Some [''Analysis failed due to an error''] \<and>
            a_recommendations a = Some [''Please try again or contact support''] \<and>
            analysisData a = Some (ErrorObject ''Analysis failed''))"
  proof (cases "analyzeDocument (faultyStorage rc ru) doc s")
    case (Pair res s')
    show ?thesis
    proof (cases res)
      case (Inl x)
      with Pair faulty_run_rejected [OF w _ e, of rc ru x s'] show ?thesis
        by simp
    next
      case (Inr a)
      with Pair faulty_run_two_records [OF w _ e, of rc ru a s']
      have "analyses s' = analyses s @ [(?n, ?p), (?n + 1, a)]" and "a = ?b \<or> a = ?c"
        by simp_all
      with fin err Pair Inr show ?thesis
        by auto
    qed
  qed
qed

theorem placeholder_then_result_witness:
  "idsBelowCounter (MemStorage_new sampleClock) \<and>
   (case analyzeDocument storage leaseDocument (MemStorage_new sampleClock) of
      (Inl e, s') \<Rightarrow> False
    | (Inr b, s') \<Rightarrow>
        analyses s' = [(1, analysisRecord (initialAnalysis leaseDocument) 1 0), (2, b)] \<and>
        isPlaceholder (analysisRecord (initialAnalysis leaseDocument) 1 0) \<and>
        a_id b = 2 \<and> documentId b = 1 \<and> a_isValid b = Some False \<and>
        a_complianceStatus b = Some ''non-compliant'' \<and> issuesCount b = Some 2 \<and>
        a_warnings b =
          Some [''Document may not be legally valid'',
                ''Format does not match any standard template''] \<and>
        \<not> isPlaceholder b) \<and>
   (case analyzeDocument flakyStorage leaseDocument (MemStorage_new sampleClock) of
      (Inl e, s') \<Rightarrow> False
    | (Inr a, s') \<Rightarrow>
        analyses s' = [(1, analysisRecord (initialAnalysis leaseDocument) 1 0), (2, a)] \<and>
        a_id a = 2 \<and> a_isValid a = Some False \<and> a_complianceStatus a = Some ''error'' \<and>
        issuesCount a = Some 1) \<and>
   (case analyzeDocument statusRejectingStorage leaseDocument (MemStorage_new sampleClock) of
      (Inl e, s') \<Rightarrow>
        analyses s' = [(1, analysisRecord (initialAnalysis leaseDocument) 1 0)]
    | (Inr a, s') \<Rightarrow> False) \<and>
   analyzeDocument unavailableStorage flatDocument (MemStorage_new sampleClock) =
     (Inl (StorageError ''insert failed''), MemStorage_new sampleClock)"
proof -
  let ?N = "MemStorage_new sampleClock"
  let ?R = "simulateLegalAnalysis (extractTextFromDocument leaseDocument)
      (d_documentType leaseDocument)"
  have w: "idsBelowCounter ?N"
    by code_simp
  have d: "d_id leaseDocument = 1"
    by (simp add: leaseDocument_def)
  have r1: "isValid ?R = False"
    by code_simp
  have r2: "complianceStatus ?R = ''non-compliant''"
    by code_simp
  have r3: "int (length (issues ?R)) = 2"
    by code_simp
  have r4: "warnings ?R =
      [''Document may not be legally valid'', ''Format does not match any standard template'']"
    by code_simp
  have k: "case analyzeDocument flakyStorage leaseDocument ?N of
      (Inl e, s') \<Rightarrow> False
    | (Inr a, s') \<Rightarrow> a_complianceStatus a = Some ''error''"
    by code_simp
  have j: "case analyzeDocument statusRejectingStorage leaseDocument ?N of
      (Inl e, s') \<Rightarrow> True
    | (Inr a, s') \<Rightarrow> False"
    by code_simp
  have u: "createAnalysis_op unavailableStorage (initialAnalysis flatDocument) ?N =
      (Inl (StorageError ''insert failed''), ?N)"
    by (simp add: unavailableStorage_def)
  note i1 = placeholder_then_result
    [where st = unavailableStorage and doc = flatDocument and ?s0.0 = ?N and s = ?N
       and rc = "\<lambda>ins s. False" and ru = "\<lambda>ident status s. status \<noteq> ''error''"
       and ident = 1 and t = 0 and cs = "[]" and clk = sampleClock
       and ins = "initialAnalysis leaseDocument", THEN conjunct1]
  note i2 = placeholder_then_result
    [where st = storage and doc = leaseDocument and ?s0.0 = ?N and s = ?N
       and rc = "\<lambda>ins s. False" and ru = "\<lambda>ident status s. status \<noteq> ''error''"
       and ident = 1 and t = 0 and cs = "[]" and clk = sampleClock
       and ins = "initialAnalysis leaseDocument",
       THEN conjunct2, THEN conjunct2, THEN conjunct2, THEN conjunct2, THEN conjunct2,
       THEN mp, OF w, THEN conjunct2, THEN conjunct2, THEN conjunct2]
  note i3 = placeholder_then_result
    [where st = storage and doc = leaseDocument and ?s0.0 = ?N and s = ?N
       and rc = "\<lambda>ins s. False" and ru = "\<lambda>ident status s. True"
       and ident = 1 and t = 0 and cs = "[]" and clk = sampleClock
       and ins = "initialAnalysis leaseDocument",
       THEN conjunct2, THEN conjunct2, THEN conjunct2, THEN conjunct2, THEN conjunct2,
       THEN mp, OF w, THEN conjunct2, THEN conjunct2, THEN conjunct2, THEN conjunct2]
  note f = new_fields [of sampleClock]
  have a: "analyzeDocument unavailableStorage flatDocument ?N =
      (Inl (StorageError ''insert failed''), ?N)"
    using i1 unfolding u by simp
  have ph: "isPlaceholder (analysisRecord (initialAnalysis leaseDocument) 1 0)"
    by code_simp
  have b: "case analyzeDocument storage leaseDocument ?N of
      (Inl e, s') \<Rightarrow> False
    | (Inr b, s') \<Rightarrow>
        analyses s' = [(1, analysisRecord (initialAnalysis leaseDocument) 1 0), (2, b)] \<and>
        isPlaceholder (analysisRecord (initialAnalysis leaseDocument) 1 0) \<and>
        a_id b = 2 \<and> documentId b = 1 \<and> a_isValid b = Some False \<and>
        a_complianceStatus b = Some ''non-compliant'' \<and> issuesCount b = Some 2 \<and>
        a_warnings b =
          Some [''Document may not be legally valid'',
                ''Format does not match any standard template''] \<and>
        \<not> isPlaceholder b"
  proof (cases "analyzeDocument storage leaseDocument ?N")
    case (Pair res s')
    show ?thesis
    proof (cases res)
      case (Inl x)
      with Pair i2 [THEN conjunct1] show ?thesis
        by (simp del: storage_ops)
    next
      case (Inr b)
      with Pair i2 [THEN conjunct1]
      have "analyses s' =
          analyses ?N @
          [(currentAnalysisId ?N,
            analysisRecord (initialAnalysis leaseDocument) (currentAnalysisId ?N)
              (clock ?N (dateReads ?N))),
           (currentAnalysisId ?N + 1, b)]"
        and "a_id b = currentAnalysisId ?N + 1" and "documentId b = d_id leaseDocument"
        and "a_isValid b = Some (isValid ?R)"
        and "a_complianceStatus b = Some (complianceStatus ?R)"
        and "issuesCount b = Some (int (length (issues ?R)))"
        and "a_warnings b = Some (warnings ?R)" and "\<not> isPlaceholder b"
        by (simp_all del: storage_ops documentType_simulate isValid_simulate)
      then show ?thesis
        unfolding Pair Inr f d r1 r2 r3 r4 using ph by (simp add: sampleClock_def)
    qed
  qed
  have c: "case analyzeDocument flakyStorage leaseDocument ?N of
      (Inl e, s') \<Rightarrow> False
    | (Inr a, s') \<Rightarrow>
        analyses s' = [(1, analysisRecord (initialAnalysis leaseDocument) 1 0), (2, a)] \<and>
        a_id a = 2 \<and> a_isValid a = Some False \<and> a_complianceStatus a = Some ''error'' \<and>
        issuesCount a = Some 1"
  proof (cases "analyzeDocument flakyStorage leaseDocument ?N")
    case (Pair res s')
    show ?thesis
    proof (cases res)
      case (Inl x)
      with Pair k show ?thesis
        by simp
    next
      case (Inr a)
      from Pair Inr k have st: "a_complianceStatus a = Some ''error''"
        by simp
      from Pair Inr i2 [THEN conjunct2]
      have "analyses s' =
          analyses ?N @
          [(currentAnalysisId ?N,
            analysisRecord (initialAnalysis leaseDocument) (currentAnalysisId ?N)
              (clock ?N (dateReads ?N))),
           (currentAnalysisId ?N + 1, a)]"
        and "a_id a = currentAnalysisId ?N + 1"
        and "a_complianceStatus a = Some (complianceStatus ?R) \<or>
          a_isValid a = Some False \<and> a_complianceStatus a = Some ''error'' \<and>
          issuesCount a = Some 1"
        unfolding flakyStorage_def [symmetric]
        by (auto simp del: storage_ops faulty_ops documentType_simulate isValid_simulate)
      with st show ?thesis
        unfolding Pair Inr f r2 by (simp add: sampleClock_def)
    qed
  qed
  have e: "case analyzeDocument statusRejectingStorage leaseDocument ?N of
      (Inl e, s') \<Rightarrow>
        analyses s' = [(1, analysisRecord (initialAnalysis leaseDocument) 1 0)]
    | (Inr a, s') \<Rightarrow> False"
  proof (cases "analyzeDocument statusRejectingStorage leaseDocument ?N")
    case (Pair res s')
    show ?thesis
    proof (cases res)
      case (Inl x)
      from Pair Inl i3
      have "analyses s' =
          analyses ?N @
          [(currentAnalysisId ?N,
            analysisRecord (initialAnalysis leaseDocument) (currentAnalysisId ?N)
              (clock ?N (dateReads ?N)))]"
        unfolding statusRejectingStorage_def [symmetric]
        by (simp del: storage_ops faulty_ops)
      then show ?thesis
        unfolding Pair Inl f by (simp add: sampleClock_def)
    next
      case (Inr a)
      with Pair j show ?thesis
        by simp
    qed
  qed
  show ?thesis
    using w a b c e by blast
qed

text \<open>
  Claim C10. \<open>getAnalysisByDocumentId\<close> returns the first record, in insertion
  order, that belongs to the document. A run of \<open>analyzeDocument\<close> leaves every
  earlier answer as it was and, for a document with no record yet, makes the
  placeholder the answer. So after any history of calls on a new store, the lookup for
  a document that was analysed returns a placeholder record, with status
  \<open>processing\<close>; the record a run returns has the status \<open>compliant\<close> or
  \<open>non-compliant\<close> and is never the one found.
\<close>

theorem lookup_returns_placeholder:
  "(analyses s = xs @ (k, a) # ys \<and> documentId a = did \<and>
    list_all (\<lambda>p. documentId (snd p) \<noteq> did) xs \<longrightarrow>
      getAnalysisByDocumentId did s = Some a) \<and>
   (idsBelowCounter s \<longrightarrow>
      getAnalysisByDocumentId did (snd (analyzeDocument storage doc s)) =
        (case getAnalysisByDocumentId did s of
           Some b \<Rightarrow> Some b
         | None \<Rightarrow>
             if d_id doc = did
             then Some (analysisRecord (initialAnalysis doc) (currentAnalysisId s) (clock s (dateReads s)))
             else None)) \<and>
   (AnalyzeDocument doc \<in> set cs \<longrightarrow>
      (case getAnalysisByDocumentId (d_id doc) (performAll cs (MemStorage_new clk)) of
         None \<Rightarrow> False
       | Some b \<Rightarrow>
           isPlaceholder b)) \<and>
   (case fst (analyzeDocument storage doc s) of
      Inl e \<Rightarrow> False
    | Inr b \<Rightarrow>
        a_complianceStatus b = Some ''compliant'' \<or>
        a_complianceStatus b = Some ''non-compliant'')"
proof (intro conjI impI)
  assume h: "analyses s = xs @ (k, a) # ys \<and> documentId a = did \<and>
    list_all (\<lambda>p. documentId (snd p) \<noteq> did) xs"
  then have "find (\<lambda>a. documentId a = did) (map snd xs) = None"
    by (auto simp: find_None_iff list_all_iff)
  with h show "getAnalysisByDocumentId did s = Some a"
    by (simp add: getAnalysisByDocumentId_def find_append)
next
  assume "idsBelowCounter s"
  then show "getAnalysisByDocumentId did (snd (analyzeDocument storage doc s)) =
        (case getAnalysisByDocumentId did s of
           Some b \<Rightarrow> Some b
         | None \<Rightarrow>
             if d_id doc = did
             then Some (analysisRecord (initialAnalysis doc) (currentAnalysisId s) (clock s (dateReads s)))
             else None)"
    by (rule lookup_after_run)
next
  assume "AnalyzeDocument doc \<in> set cs"
  from performAll_placeholder [OF new_ids [of clk] new_no_lookup [of clk] this]
  show "case getAnalysisByDocumentId (d_id doc) (performAll cs (MemStorage_new clk)) of
         None \<Rightarrow> False
       | Some b \<Rightarrow>
           isPlaceholder b"
    by auto
next
  show "case fst (analyzeDocument storage doc s) of
      Inl e \<Rightarrow> False
    | Inr b \<Rightarrow>
        a_complianceStatus b = Some ''compliant'' \<or>
        a_complianceStatus b = Some ''non-compliant''"
    by (rule final_status)
qed

theorem lookup_returns_placeholder_witness:
  "idsBelowCounter (MemStorage_new sampleClock) \<and>
   getAnalysisByDocumentId 1 (snd (analyzeDocument storage leaseDocument (MemStorage_new sampleClock))) =
     Some (analysisRecord (initialAnalysis leaseDocument) 1 0) \<and>
   idsBelowCounter (snd (analyzeDocument storage leaseDocument (MemStorage_new sampleClock))) \<and>
   getAnalysisByDocumentId 1
     (snd (analyzeDocument storage leaseDocument
        (snd (analyzeDocument storage leaseDocument (MemStorage_new sampleClock))))) =
     Some (analysisRecord (initialAnalysis leaseDocument) 1 0) \<and>
   AnalyzeDocument leaseDocument \<in>
     set [CreateDocument leaseUpload, AnalyzeDocument leaseDocument,
          AnalyzeDocument flatDocument, AnalyzeDocument leaseDocument] \<and>
   (case getAnalysisByDocumentId 1
           (performAll [CreateDocument leaseUpload, AnalyzeDocument leaseDocument,
                        AnalyzeDocument flatDocument, AnalyzeDocument leaseDocument]
              (MemStorage_new sampleClock)) of
      None \<Rightarrow> False
    | Some b \<Rightarrow> isPlaceholder b)"
proof -
  let ?S1 = "snd (analyzeDocument storage leaseDocument (MemStorage_new sampleClock))"
  let ?p = "analysisRecord (initialAnalysis leaseDocument) 1 0"
  have w: "idsBelowCounter (MemStorage_new sampleClock)"
    by code_simp
  have n: "getAnalysisByDocumentId 1 (MemStorage_new sampleClock) = None"
    by code_simp
  have d: "d_id leaseDocument = 1"
    by (simp add: leaseDocument_def)
  have m: "AnalyzeDocument leaseDocument \<in>
     set [CreateDocument leaseUpload, AnalyzeDocument leaseDocument,
          AnalyzeDocument flatDocument, AnalyzeDocument leaseDocument]"
    by simp
  have w1: "idsBelowCounter ?S1"
    by code_simp
  have a1: "analyses ?S1 = [] @ (1, ?p) # tl (analyses ?S1) \<and> documentId ?p = 1 \<and>
    list_all (\<lambda>p. documentId (snd p) \<noteq> 1) []"
    by code_simp
  have first: "getAnalysisByDocumentId 1 ?S1 = Some ?p"
    using a1 lookup_returns_placeholder [of ?S1 "[]" 1 ?p "tl (analyses ?S1)" 1]
    by blast
  have again: "getAnalysisByDocumentId 1 (snd (analyzeDocument storage leaseDocument ?S1)) =
      Some ?p"
    using w1 first d
      lookup_returns_placeholder [of ?S1 "[]" 1 ?p "tl (analyses ?S1)" 1 leaseDocument]
    by simp
  have hist: "case getAnalysisByDocumentId 1
           (performAll [CreateDocument leaseUpload, AnalyzeDocument leaseDocument,
                        AnalyzeDocument flatDocument, AnalyzeDocument leaseDocument]
              (MemStorage_new sampleClock)) of
      None \<Rightarrow> False
    | Some b \<Rightarrow> isPlaceholder b"
    using m d
      lookup_returns_placeholder [where doc = leaseDocument and clk = sampleClock
        and cs = "[CreateDocument leaseUpload, AnalyzeDocument leaseDocument,
          AnalyzeDocument flatDocument, AnalyzeDocument leaseDocument]"
        and s = "MemStorage_new sampleClock" and xs = "[]" and k = 1 and a = ?p
        and ys = "[]" and did = 1]
    by simp
  show ?thesis
    using w w1 first again m hist by blast
qed

text \<open>
  Claim C4, as stated, fails: when the storage rejects the first \<open>createAnalysis\<close>,
  which stands before the \<open>try\<close>, \<open>analyzeDocument\<close> rejects with that error.
\<close>

theorem rejected_placeholder_propagates:
  "analyzeDocument unavailableStorage leaseDocument (MemStorage_new sampleClock) =
     (Inl (StorageError ''insert failed''), (MemStorage_new sampleClock))"
  by (simp add: analyzeDocument_def unavailableStorage_def)

text \<open>
  Claim C4, amended. For every storage, \<open>analyzeDocument\<close> resolves to a report when
  the placeholder call resolves and the two calls of the \<open>catch\<close> block never reject,
  whatever the calls inside the \<open>try\<close> do; a rejection of the placeholder call
  reaches the caller. For every storage, when the \<open>try\<close> block throws and the status
  update of the \<open>catch\<close> block resolves, that update has asked for the status
  \<open>error\<close> and the run ends as the insertion of the error record does, a record with
  the status \<open>error\<close>, \<open>isValid\<close> false and one issue. On \<open>MemStorage\<close> with
  rejecting calls: when the \<open>try\<close> block throws and the calls of the \<open>catch\<close> block
  are not rejected, the report returned has these three values and the stored
  document, if there is one, has the status \<open>error\<close>.
\<close>

theorem resolves_when_handler_succeeds:
  "((\<exists>p s0. createAnalysis_op st (initialAnalysis doc) s = (Inr p, s0)) \<and>
    (\<forall>s'. \<exists>d s''. updateDocumentStatus_op st (d_id doc) ''error'' s' = (Inr d, s'')) \<and>
    (\<forall>s'. \<exists>a s''. createAnalysis_op st (errorAnalysis doc) s' = (Inr a, s'')) \<longrightarrow>
      (\<exists>a s'. analyzeDocument st doc s = (Inr a, s'))) \<and>
   (createAnalysis_op st (initialAnalysis doc) s = (Inl e, s0) \<longrightarrow>
      analyzeDocument st doc s = (Inl e, s0)) \<and>
   (createAnalysis_op st (initialAnalysis doc) s = (Inr p, t0) \<and>
    tryBlock st doc t0 = (Inl e1, t1) \<and>
    updateDocumentStatus_op st (d_id doc) ''error'' t1 = (Inr d, t2) \<longrightarrow>
      analyzeDocument st doc s = createAnalysis_op st (errorAnalysis doc) t2 \<and>
      a_complianceStatus (errorAnalysis doc) = Some ''error'' \<and>
      a_isValid (errorAnalysis doc) = Some False \<and>
      issuesCount (errorAnalysis doc) = Some 1) \<and>
   (\<not> rc (initialAnalysis doc) m \<and>
    tryBlock (faultyStorage rc ru) doc (snd (createAnalysis (initialAnalysis doc) m)) =
      (Inl e2, m1) \<and>
    \<not> ru (d_id doc) ''error'' m1 \<and>
    \<not> rc (errorAnalysis doc) (snd (updateDocumentStatus (d_id doc) ''error'' m1)) \<longrightarrow>
      (case analyzeDocument (faultyStorage rc ru) doc m of
         (Inl e3, m') \<Rightarrow> False
       | (Inr a, m') \<Rightarrow>
           a_complianceStatus a = Some ''error'' \<and> a_isValid a = Some False \<and>
           issuesCount a = Some 1 \<and>
           getDocument (d_id doc) m' =
             map_option (\<lambda>d. d\<lparr> d_status := ''error'' \<rparr>) (getDocument (d_id doc) m)))"
proof (intro conjI impI)
  assume h: "(\<exists>p s0. createAnalysis_op st (initialAnalysis doc) s = (Inr p, s0)) \<and>
    (\<forall>s'. \<exists>d s''. updateDocumentStatus_op st (d_id doc) ''error'' s' = (Inr d, s'')) \<and>
    (\<forall>s'. \<exists>a s''. createAnalysis_op st (errorAnalysis doc) s' = (Inr a, s''))"
  then obtain p s0 where p: "createAnalysis_op st (initialAnalysis doc) s = (Inr p, s0)"
    by blast
  have c: "\<exists>a s''. catchBlock st doc s' = (Inr a, s'')" for s'
  proof -
    obtain d s1 where u: "updateDocumentStatus_op st (d_id doc) ''error'' s' = (Inr d, s1)"
      using h by blast
    obtain a s2 where "createAnalysis_op st (errorAnalysis doc) s1 = (Inr a, s2)"
      using h by blast
    with u show ?thesis by (simp add: catchBlock_def)
  qed
  show "\<exists>a s'. analyzeDocument st doc s = (Inr a, s')"
  proof (cases "tryBlock st doc s0")
    case (Pair res s1)
    show ?thesis
    proof (cases res)
      case (Inl x)
      with Pair p c [of s1] show ?thesis by (simp add: analyzeDocument_def)
    next
      case (Inr a)
      with Pair p show ?thesis by (simp add: analyzeDocument_def)
    qed
  qed
next
  assume "createAnalysis_op st (initialAnalysis doc) s = (Inl e, s0)"
  then show "analyzeDocument st doc s = (Inl e, s0)"
    by (simp add: analyzeDocument_def)
next
  assume "createAnalysis_op st (initialAnalysis doc) s = (Inr p, t0) \<and>
    tryBlock st doc t0 = (Inl e1, t1) \<and>
    updateDocumentStatus_op st (d_id doc) ''error'' t1 = (Inr d, t2)"
  then show "analyzeDocument st doc s = createAnalysis_op st (errorAnalysis doc) t2"
    by (simp add: analyzeDocument_def catchBlock_def)
next
  show "a_complianceStatus (errorAnalysis doc) = Some ''error''"
    "a_isValid (errorAnalysis doc) = Some False"
    "issuesCount (errorAnalysis doc) = Some 1"
    by (simp_all add: errorAnalysis_def)
next
  let ?F = "faultyStorage rc ru"
  let ?m0 = "snd (createAnalysis (initialAnalysis doc) m)"
  let ?m2 = "snd (updateDocumentStatus (d_id doc) ''error'' m1)"
  assume h: "\<not> rc (initialAnalysis doc) m \<and>
    tryBlock ?F doc ?m0 = (Inl e2, m1) \<and>
    \<not> ru (d_id doc) ''error'' m1 \<and> \<not> rc (errorAnalysis doc) ?m2"
  have run: "analyzeDocument ?F doc m =
    (Inr (fst (createAnalysis (errorAnalysis doc) ?m2)),
     snd (createAnalysis (errorAnalysis doc) ?m2))"
    using h by (simp add: analyzeDocument_def catchBlock_def)
  have d1: "getDocument (d_id doc) m1 = getDocument (d_id doc) m \<or>
    (\<exists>st. getDocument (d_id doc) m1 =
       map_option (\<lambda>d. d\<lparr> d_status := st \<rparr>) (getDocument (d_id doc) m))"
    using tryBlock_faulty_rejected [of rc ru doc ?m0 e2 m1] h
    by (auto simp: getDocument_updateDocumentStatus)
  have d2: "getDocument (d_id doc) ?m2 =
    map_option (\<lambda>d. d\<lparr> d_status := ''error'' \<rparr>) (getDocument (d_id doc) m)"
    using d1 by (auto simp: getDocument_updateDocumentStatus status_overwritten)
  show "case analyzeDocument ?F doc m of
         (Inl e3, m') \<Rightarrow> False
       | (Inr a, m') \<Rightarrow>
           a_complianceStatus a = Some ''error'' \<and> a_isValid a = Some False \<and>
           issuesCount a = Some 1 \<and>
           getDocument (d_id doc) m' =
             map_option (\<lambda>d. d\<lparr> d_status := ''error'' \<rparr>) (getDocument (d_id doc) m)"
    unfolding run using d2 by (simp add: fst_createAnalysis errorAnalysis_def)
qed

theorem resolves_when_handler_succeeds_witness:
  "(\<forall>s'. \<exists>d s''. updateDocumentStatus_op flakyStorage (d_id leaseDocument) ''error'' s' =
      (Inr d, s'')) \<and>
   (\<forall>s'. \<exists>a s''. createAnalysis_op flakyStorage (errorAnalysis leaseDocument) s' =
      (Inr a, s'')) \<and>
   (\<exists>a s'. analyzeDocument flakyStorage leaseDocument
      (performAll [CreateDocument leaseUpload] (MemStorage_new sampleClock)) = (Inr a, s')) \<and>
   analyzeDocument unavailableStorage flatDocument (MemStorage_new sampleClock) =
     (Inl (StorageError ''insert failed''), MemStorage_new sampleClock) \<and>
   tryBlock flakyStorage leaseDocument
     (snd (createAnalysis (initialAnalysis leaseDocument)
        (performAll [CreateDocument leaseUpload] (MemStorage_new sampleClock)))) =
     (Inl (StorageError ''update failed''),
      snd (createAnalysis (initialAnalysis leaseDocument)
        (performAll [CreateDocument leaseUpload] (MemStorage_new sampleClock)))) \<and>
   analyzeDocument flakyStorage leaseDocument
     (performAll [CreateDocument leaseUpload] (MemStorage_new sampleClock)) =
     createAnalysis_op flakyStorage (errorAnalysis leaseDocument)
       (snd (updateDocumentStatus 1 ''error''
          (snd (createAnalysis (initialAnalysis leaseDocument)
             (performAll [CreateDocument leaseUpload] (MemStorage_new sampleClock)))))) \<and>
   map_option d_status
     (getDocument 1 (performAll [CreateDocument leaseUpload] (MemStorage_new sampleClock))) =
     Some ''pending'' \<and>
   (case analyzeDocument flakyStorage leaseDocument
           (performAll [CreateDocument leaseUpload] (MemStorage_new sampleClock)) of
      (Inl e, m') \<Rightarrow> False
    | (Inr a, m') \<Rightarrow>
        a_complianceStatus a = Some ''error'' \<and> a_isValid a = Some False \<and>
        issuesCount a = Some 1 \<and>
        map_option d_status (getDocument 1 m') = Some ''error'')"
proof -
  let ?S = "performAll [CreateDocument leaseUpload] (MemStorage_new sampleClock)"
  let ?P = "snd (createAnalysis (initialAnalysis leaseDocument) ?S)"
  let ?Q = "snd (updateDocumentStatus 1 ''error'' ?P)"
  have h1: "\<forall>s'. \<exists>d s''.
      updateDocumentStatus_op flakyStorage (d_id leaseDocument) ''error'' s' = (Inr d, s'')"
    by (simp add: flakyStorage_def)
  have h2: "\<forall>s'. \<exists>a s''.
      createAnalysis_op flakyStorage (errorAnalysis leaseDocument) s' = (Inr a, s'')"
    by (simp add: flakyStorage_def)
  have h3: "\<exists>p s0.
      createAnalysis_op flakyStorage (initialAnalysis leaseDocument) ?S = (Inr p, s0)"
    by (simp add: flakyStorage_def)
  have h4: "createAnalysis_op flakyStorage (initialAnalysis leaseDocument) ?S =
      (Inr (fst (createAnalysis (initialAnalysis leaseDocument) ?S)), ?P)"
    by (simp add: flakyStorage_def)
  have d: "d_id leaseDocument = 1"
    by (simp add: leaseDocument_def)
  have h5: "updateDocumentStatus_op flakyStorage (d_id leaseDocument) ''error'' ?P =
      (Inr (fst (updateDocumentStatus 1 ''error'' ?P)), ?Q)"
    by (simp add: flakyStorage_def d)
  have u: "createAnalysis_op unavailableStorage (initialAnalysis flatDocument)
      (MemStorage_new sampleClock) =
      (Inl (StorageError ''insert failed''), MemStorage_new sampleClock)"
    by (simp add: unavailableStorage_def)
  have t: "tryBlock flakyStorage leaseDocument ?P = (Inl (StorageError ''update failed''), ?P)"
  proof -
    obtain r where "enhancedResults leaseDocument = Inr r"
      using enhancedResults_resolves by blast
    then show ?thesis
      by (simp add: tryBlock_def flakyStorage_def)
  qed
  have p: "map_option d_status (getDocument 1 ?S) = Some ''pending''"
    by code_simp
  note inst1 = resolves_when_handler_succeeds
    [where st = flakyStorage and doc = leaseDocument and s = ?S
       and e = "StorageError ''insert failed''" and ?s0.0 = ?S
       and p = "fst (createAnalysis (initialAnalysis leaseDocument) ?S)" and ?t0.0 = ?P
       and ?e1.0 = "StorageError ''update failed''" and ?t1.0 = ?P
       and d = "fst (updateDocumentStatus 1 ''error'' ?P)" and ?t2.0 = ?Q
       and rc = "\<lambda>ins s. False" and m = ?S
       and ru = "\<lambda>ident status s. status \<noteq> ''error''"
       and ?e2.0 = "StorageError ''update failed''" and ?m1.0 = ?P]
  note inst2 = resolves_when_handler_succeeds
    [where st = unavailableStorage and doc = flatDocument
       and s = "MemStorage_new sampleClock"
       and e = "StorageError ''insert failed''" and ?s0.0 = "MemStorage_new sampleClock"
       and p = "fst (createAnalysis (initialAnalysis leaseDocument) ?S)" and ?t0.0 = ?P
       and ?e1.0 = "StorageError ''update failed''" and ?t1.0 = ?P
       and d = "fst (updateDocumentStatus 1 ''error'' ?P)" and ?t2.0 = ?Q
       and rc = "\<lambda>ins s. False" and m = ?S
       and ru = "\<lambda>ident status s. status \<noteq> ''error''"
       and ?e2.0 = "StorageError ''update failed''" and ?m1.0 = ?P]
  have a: "\<exists>a s'. analyzeDocument flakyStorage leaseDocument ?S = (Inr a, s')"
    using inst1 h1 h2 h3 by blast
  have b: "analyzeDocument unavailableStorage flatDocument (MemStorage_new sampleClock) =
     (Inl (StorageError ''insert failed''), MemStorage_new sampleClock)"
    using inst2 u by blast
  have g: "analyzeDocument flakyStorage leaseDocument ?S =
     createAnalysis_op flakyStorage (errorAnalysis leaseDocument) ?Q"
    using inst1 h4 t h5 by blast
  have c: "case analyzeDocument flakyStorage leaseDocument ?S of
      (Inl e, m') \<Rightarrow> False
    | (Inr a, m') \<Rightarrow>
        a_complianceStatus a = Some ''error'' \<and> a_isValid a = Some False \<and>
        issuesCount a = Some 1 \<and>
        getDocument (d_id leaseDocument) m' =
          map_option (\<lambda>d. d\<lparr> d_status := ''error'' \<rparr>) (getDocument (d_id leaseDocument) ?S)"
    using inst1 t unfolding flakyStorage_def by simp
  have c': "case analyzeDocument flakyStorage leaseDocument ?S of
      (Inl e, m') \<Rightarrow> False
    | (Inr a, m') \<Rightarrow>
        a_complianceStatus a = Some ''error'' \<and> a_isValid a = Some False \<and>
        issuesCount a = Some 1 \<and>
        map_option d_status (getDocument 1 m') = Some ''error''"
    using c p unfolding d
    by (auto split: prod.splits sum.splits simp: option.map_comp comp_def
        simp del: storage_ops faulty_ops)
  show ?thesis
    using h1 h2 a b t g p c' by blast
qed

end
